theory Spec2Isabelle
  imports
    Complex_Main
    "HOL-Library.Char_ord"
    "HOL-Library.List_Lexorder"
    "HOL-Library.Product_Lexorder"
    "HOL-Library.Multiset"
    "HOL-Library.AList"
begin

section \<open>Tables and the pandas operations the pages use\<close>

text \<open>
  A DataFrame whose columns a page reads by name is a list of rows, each row a record
  with one field per column. Monetary amounts and scores are floating-point numbers in
  the program; they are modelled by exact rationals, so rounding is outside the model.
  String columns are compared as Python compares \<open>str\<close>: by equality, and
  lexicographically where pandas sorts group keys.
\<close>

type_synonym date = "nat \<times> nat \<times> nat"

record spend_row =
  Supplier :: string
  Category :: string
  SubCategory :: string
  BusinessUnit :: string
  Date :: date
  Amount :: rat

text \<open>
  \<^verbatim>\<open>df.groupby(key)[val].sum().reset_index()\<close>: one row per distinct key, keys in
  ascending order (pandas sorts group keys by default), the value column summed.
\<close>

definition groupby_sum :: "('r \<Rightarrow> 'k::linorder) \<Rightarrow> ('r \<Rightarrow> rat) \<Rightarrow> 'r list \<Rightarrow> ('k \<times> rat) list" where
  "groupby_sum key val df =
     map (\<lambda>k. (k, sum_list (map val (filter (\<lambda>r. key r = k) df))))
         (sort (remdups (map key df)))"

text \<open>
  \<^verbatim>\<open>df.sort_values(col, ascending=False)\<close>. Rows with equal values keep their order
  here; pandas leaves the order of ties open, and nothing below depends on it.
\<close>

definition sort_values_desc :: "('r \<Rightarrow> rat) \<Rightarrow> 'r list \<Rightarrow> 'r list" where
  "sort_values_desc val df = sort_key (\<lambda>r. - val r) df"

definition head :: "nat \<Rightarrow> 'r list \<Rightarrow> 'r list" where
  "head n df = take n df"

section \<open>Category intelligence page: supplier concentration\<close>

text \<open>
  \<^verbatim>\<open>
  suppliers_df = filtered_data.groupby("Supplier")["Amount"].sum().reset_index()
  suppliers_df = suppliers_df.sort_values("Amount", ascending=False).head(10)
  total_category_spend = filtered_data["Amount"].sum()
  top3_spend = suppliers_df.head(3)["Amount"].sum() if len(suppliers_df) >= 3
               else suppliers_df["Amount"].sum()
  top3_concentration = (top3_spend / total_category_spend * 100)
                       if total_category_spend > 0 else 0
  \<close>
\<close>

definition suppliers_df :: "spend_row list \<Rightarrow> (string \<times> rat) list" where
  "suppliers_df filtered_data =
     head 10 (sort_values_desc snd (groupby_sum Supplier Amount filtered_data))"

definition total_category_spend :: "spend_row list \<Rightarrow> rat" where
  "total_category_spend filtered_data = sum_list (map Amount filtered_data)"

definition top3_spend :: "spend_row list \<Rightarrow> rat" where
  "top3_spend filtered_data =
     (if length (suppliers_df filtered_data) \<ge> 3
      then sum_list (map snd (head 3 (suppliers_df filtered_data)))
      else sum_list (map snd (suppliers_df filtered_data)))"

definition top3_concentration :: "spend_row list \<Rightarrow> rat" where
  "top3_concentration filtered_data =
     (if total_category_spend filtered_data > 0
      then top3_spend filtered_data / total_category_spend filtered_data * 100
      else 0)"

text \<open>
  The insight shown under the supplier chart, an \<open>if\<close>/\<open>elif\<close>/\<open>elif\<close> chain
  without \<open>else\<close>: no message when no branch applies.
  \<^verbatim>\<open>
  if top3_concentration > 75:                                  st.info(dependency risk)
  elif top3_concentration < 30 and len(suppliers_df) > 7:      st.info(fragmented)
  elif 50 <= top3_concentration <= 75:                         st.success(balanced)
  \<close>
\<close>

datatype insight = Dependency_risk | Fragmented | Balanced

definition concentration_insight :: "rat \<Rightarrow> nat \<Rightarrow> insight option" where
  "concentration_insight top3 n_suppliers_df =
     (if top3 > 75 then Some Dependency_risk
      else if top3 < 30 \<and> n_suppliers_df > 7 then Some Fragmented
      else if 50 \<le> top3 \<and> top3 \<le> 75 then Some Balanced
      else None)"

definition supplier_insight :: "spend_row list \<Rightarrow> insight option" where
  "supplier_insight filtered_data =
     concentration_insight (top3_concentration filtered_data)
                           (length (suppliers_df filtered_data))"

text \<open>
  The spec's wording of the concentration ratio, over the list of per-entity totals: the
  sum of the three largest totals divided by the sum of all totals, as a percentage, and
  0 when the total is 0.
\<close>

definition spec_concentration_ratio :: "rat list \<Rightarrow> rat" where
  "spec_concentration_ratio totals =
     (if sum_list totals = 0 then 0
      else sum_list (take 3 (rev (sort totals))) / sum_list totals * 100)"

definition entity_totals :: "spend_row list \<Rightarrow> rat list" where
  "entity_totals filtered_data = map snd (groupby_sum Supplier Amount filtered_data)"

text \<open>Four suppliers with totals 100, 100, 100 and 700; one supplier with a net credit.\<close>

definition totals_100_100_100_700 :: "spend_row list" where
  "totals_100_100_100_700 =
    [\<lparr>Supplier = ''A'', Category = ''IT'', SubCategory = ''HW'', BusinessUnit = ''Ops'',
      Date = (2023, 1, 5), Amount = 100\<rparr>,
     \<lparr>Supplier = ''B'', Category = ''IT'', SubCategory = ''HW'', BusinessUnit = ''Ops'',
      Date = (2023, 1, 6), Amount = 100\<rparr>,
     \<lparr>Supplier = ''C'', Category = ''IT'', SubCategory = ''HW'', BusinessUnit = ''Ops'',
      Date = (2023, 1, 7), Amount = 100\<rparr>,
     \<lparr>Supplier = ''D'', Category = ''IT'', SubCategory = ''HW'', BusinessUnit = ''Ops'',
      Date = (2023, 1, 8), Amount = 700\<rparr>]"

definition net_credit :: "spend_row list" where
  "net_credit =
    [\<lparr>Supplier = ''A'', Category = ''IT'', SubCategory = ''HW'', BusinessUnit = ''Ops'',
      Date = (2023, 1, 5), Amount = - 100\<rparr>]"

section \<open>Category intelligence page: period change\<close>

text \<open>
  \<^verbatim>\<open>
  filtered_data["Month"] = pd.to_datetime(filtered_data["Date"]).dt.strftime('%Y-%m')
  monthly_totals = filtered_data.groupby("Month")["Amount"].sum().reset_index()
  if len(monthly_totals) >= 3:
      first_month = monthly_totals.iloc[0]["Amount"]
      last_month = monthly_totals.iloc[-1]["Amount"]
      change_pct = ((last_month - first_month) / first_month * 100) if first_month > 0 else 0
  \<close>
  The month label is the text \<open>YYYY-MM\<close>, zero-padded; the groups come out in the
  lexicographic order of the labels. No percentage is computed for fewer than three
  months (\<open>None\<close>).
\<close>

fun str_nat :: "nat \<Rightarrow> string" where
  "str_nat n = (if n < 10 then [''0123456789'' ! n]
                else str_nat (n div 10) @ [''0123456789'' ! (n mod 10)])"

definition zfill :: "nat \<Rightarrow> nat \<Rightarrow> string" where
  "zfill width n = replicate (width - length (str_nat n)) (CHR ''0'') @ str_nat n"

fun strftime_Ym :: "date \<Rightarrow> string" where
  "strftime_Ym (y, m, d) = zfill 4 y @ ''-'' @ zfill 2 m"

definition Month :: "spend_row \<Rightarrow> string" where
  "Month r = strftime_Ym (Date r)"

definition monthly_totals :: "spend_row list \<Rightarrow> (string \<times> rat) list" where
  "monthly_totals filtered_data = groupby_sum Month Amount filtered_data"

definition change_pct :: "spend_row list \<Rightarrow> rat option" where
  "change_pct filtered_data =
     (if length (monthly_totals filtered_data) \<ge> 3 then
        (let first_month = snd (hd (monthly_totals filtered_data));
             last_month = snd (last (monthly_totals filtered_data))
         in Some (if first_month > 0 then (last_month - first_month) / first_month * 100 else 0))
      else None)"

text \<open>
  The spec's wording of the period change, on the first and the last period sum:
  \<open>(last - first) / first * 100\<close>, and 0 when the first sum is 0. The periods of a table
  are its month labels; a period's sum adds the amounts of the rows of that month.
\<close>

definition spec_period_change :: "rat \<Rightarrow> rat \<Rightarrow> rat" where
  "spec_period_change first_sum last_sum =
     (if first_sum = 0 then 0 else (last_sum - first_sum) / first_sum * 100)"

definition periods :: "spend_row list \<Rightarrow> string set" where
  "periods filtered_data = Month ` set filtered_data"

definition period_sum :: "spend_row list \<Rightarrow> string \<Rightarrow> rat" where
  "period_sum filtered_data m = sum_list (map Amount (filter (\<lambda>r. Month r = m) filtered_data))"

text \<open>
  The character of a decimal digit, and the year and month of a row's date: the
  chronological order of months is the order of these pairs.
\<close>

definition digit_char :: "nat \<Rightarrow> char" where
  "digit_char n = ''0123456789'' ! n"

definition year_month :: "spend_row \<Rightarrow> nat \<times> nat" where
  "year_month r = (fst (Date r), fst (snd (Date r)))"

definition spend :: "string \<Rightarrow> date \<Rightarrow> rat \<Rightarrow> spend_row" where
  "spend s d a = \<lparr>Supplier = s, Category = ''IT'', SubCategory = ''HW'', BusinessUnit = ''Ops'',
                  Date = d, Amount = a\<rparr>"

definition months_1000_300_1200 :: "spend_row list" where
  "months_1000_300_1200 =
     [spend ''A'' (2023, 1, 5) 600, spend ''B'' (2023, 3, 9) 1200,
      spend ''B'' (2023, 1, 20) 400, spend ''A'' (2023, 2, 11) 300]"

definition months_0_300_500 :: "spend_row list" where
  "months_0_300_500 =
     [spend ''A'' (2023, 1, 5) 0, spend ''B'' (2023, 3, 9) 500, spend ''A'' (2023, 2, 11) 300]"

definition months_1000_1200 :: "spend_row list" where
  "months_1000_1200 = [spend ''A'' (2023, 1, 5) 1000, spend ''B'' (2023, 2, 9) 1200]"

definition months_credit_first :: "spend_row list" where
  "months_credit_first =
     [spend ''A'' (2023, 1, 5) (- 100), spend ''B'' (2023, 2, 9) 50, spend ''A'' (2023, 3, 11) 100]"

section \<open>Supplier and performance tables\<close>

record supplier_row =
  SupplierID :: string
  SupplierName :: string
  Category :: string
  Country :: string
  City :: string

record performance_row =
  SupplierID :: string
  Quarter :: string
  DeliveryScore :: rat
  QualityScore :: rat
  ResponsivenessScore :: rat
  OverallScore :: rat

section \<open>Supplier relationship page: spend percentile\<close>

text \<open>
  \<^verbatim>\<open>(series <= x).mean()\<close>: the share of the entries that are at most \<open>x\<close>. The mean
  of an empty series is NaN, here \<open>None\<close>.
\<close>

definition le_mean :: "rat list \<Rightarrow> rat \<Rightarrow> rat option" where
  "le_mean series x =
     (if series = [] then None
      else Some (of_nat (length (filter (\<lambda>t. t \<le> x) series)) / of_nat (length series)))"

text \<open>
  \<^verbatim>\<open>
  supplier_spend = spend_data[spend_data["Supplier"] == supplier_details["SupplierName"]]
  total_spend = supplier_spend["Amount"].sum() if len(supplier_spend) > 0 else 0
  \<close>
\<close>

definition supplier_spend :: "spend_row list \<Rightarrow> string \<Rightarrow> spend_row list" where
  "supplier_spend spend_data supplier_name = filter (\<lambda>r. Supplier r = supplier_name) spend_data"

definition total_spend :: "spend_row list \<Rightarrow> string \<Rightarrow> rat" where
  "total_spend spend_data supplier_name =
     (if length (supplier_spend spend_data supplier_name) > 0
      then sum_list (map Amount (supplier_spend spend_data supplier_name)) else 0)"

text \<open>
  The tier metric of the selected supplier:
  \<^verbatim>\<open>
  if len(supplier_spend) > 0:
      spend_percentile = (spend_data.groupby("Supplier")["Amount"].sum() <= total_spend).mean() * 100
      tier = "Strategic" if spend_percentile >= 80 else ("Key" if spend_percentile >= 50 else "Standard")
  else:
      tier = "Unknown"
  \<close>
  \<open>tier_spend_percentile\<close> is \<open>None\<close> where the page computes no percentile.
\<close>

datatype tier = Strategic | Key | Standard | Unknown

definition tier_spend_percentile :: "spend_row list \<Rightarrow> string \<Rightarrow> rat option" where
  "tier_spend_percentile spend_data supplier_name =
     (if length (supplier_spend spend_data supplier_name) > 0
      then map_option (\<lambda>m. m * 100)
             (le_mean (map snd (groupby_sum Supplier Amount spend_data))
                      (total_spend spend_data supplier_name))
      else None)"

definition supplier_tier :: "spend_row list \<Rightarrow> string \<Rightarrow> tier" where
  "supplier_tier spend_data supplier_name =
     (if length (supplier_spend spend_data supplier_name) > 0 then
        (case tier_spend_percentile spend_data supplier_name of
           None \<Rightarrow> Standard
         | Some spend_percentile \<Rightarrow>
             if spend_percentile \<ge> 80 then Strategic
             else if spend_percentile \<ge> 50 then Key else Standard)
      else Unknown)"










section \<open>Joins and grouped means\<close>

text \<open>
  \<^verbatim>\<open>left.merge(right, on=key, how='left')\<close>: every left row is kept, in order; it is
  paired with each right row of the same key, in the right table's order, and with
  missing values (\<open>None\<close>) when no right row has its key.
\<close>

definition merge_left :: "'l list \<Rightarrow> 'r list \<Rightarrow> ('l \<Rightarrow> 'k) \<Rightarrow> ('r \<Rightarrow> 'k) \<Rightarrow> ('l \<times> 'r option) list" where
  "merge_left left right left_on right_on =
     concat (map (\<lambda>l. case filter (\<lambda>r. right_on r = left_on l) right of
                         [] \<Rightarrow> [(l, None)]
                       | m # ms \<Rightarrow> map (\<lambda>r. (l, Some r)) (m # ms)) left)"

text \<open>
  \<^verbatim>\<open>df.groupby(keys)[val].mean().reset_index()\<close>: a row whose key has a missing
  component belongs to no group (pandas drops such keys); the groups come out in
  ascending key order, each with the mean of its rows. Every group has a row.
\<close>

definition groupby_mean :: "('r \<Rightarrow> 'k::linorder option) \<Rightarrow> ('r \<Rightarrow> rat) \<Rightarrow> 'r list \<Rightarrow> ('k \<times> rat) list" where
  "groupby_mean key val df =
     map (\<lambda>k. (k, sum_list (map val (filter (\<lambda>r. key r = Some k) df))
                   / of_nat (length (filter (\<lambda>r. key r = Some k) df))))
         (sort (remdups (List.map_filter key df)))"

section \<open>Supplier performance chart\<close>

text \<open>
  \<^verbatim>\<open>
  def create_supplier_chart(performance_data, supplier_data, metric='OverallScore'):
      merged_data = performance_data.merge(
          supplier_data[['SupplierID', 'SupplierName', 'Category']], on='SupplierID', how='left')
      df_grouped = merged_data.groupby(['SupplierID', 'SupplierName', 'Category'])[metric]
                              .mean().reset_index()
      df_grouped = df_grouped.sort_values(metric, ascending=False)
      fig = px.bar(df_grouped.head(15), y='SupplierName', x=metric, ...)
      avg_score = df_grouped[metric].mean()
      fig.add_vline(x=avg_score, ...)
  \<close>
  The metric is the accessor of the chosen score column. The chart is its bars and the
  position of the average line (NaN, here \<open>None\<close>, when there is no group).
\<close>

definition merged_data ::
  "performance_row list \<Rightarrow> supplier_row list \<Rightarrow> (performance_row \<times> supplier_row option) list" where
  "merged_data performance_data supplier_data =
     merge_left performance_data supplier_data performance_row.SupplierID supplier_row.SupplierID"

definition group_key :: "performance_row \<times> supplier_row option \<Rightarrow> (string \<times> string \<times> string) option" where
  "group_key m =
     (case snd m of
        None \<Rightarrow> None
      | Some s \<Rightarrow> Some (performance_row.SupplierID (fst m), SupplierName s, supplier_row.Category s))"

definition df_grouped ::
  "performance_row list \<Rightarrow> supplier_row list \<Rightarrow> (performance_row \<Rightarrow> rat)
     \<Rightarrow> ((string \<times> string \<times> string) \<times> rat) list" where
  "df_grouped performance_data supplier_data metric =
     sort_values_desc snd
       (groupby_mean group_key (\<lambda>m. metric (fst m)) (merged_data performance_data supplier_data))"

record supplier_chart =
  bars :: "((string \<times> string \<times> string) \<times> rat) list"
  avg_score :: "rat option"

definition create_supplier_chart ::
  "performance_row list \<Rightarrow> supplier_row list \<Rightarrow> (performance_row \<Rightarrow> rat) \<Rightarrow> supplier_chart" where
  "create_supplier_chart performance_data supplier_data metric =
     \<lparr>bars = head 15 (df_grouped performance_data supplier_data metric),
      avg_score =
        (if df_grouped performance_data supplier_data metric = [] then None
         else Some (sum_list (map snd (df_grouped performance_data supplier_data metric))
                      / of_nat (length (df_grouped performance_data supplier_data metric))))\<rparr>"

section \<open>Supplier risk page: latest scores and the score range\<close>

text \<open>
  \<^verbatim>\<open>
  latest_quarter = performance_data["Quarter"].max()
  latest_performance = performance_data[performance_data["Quarter"] == latest_quarter]
  supplier_performance = filtered_suppliers.merge(
      latest_performance[["SupplierID", "OverallScore", "DeliveryScore", "QualityScore",
                          "ResponsivenessScore"]], on="SupplierID", how="left")
  min_score, max_score = score_range
  supplier_performance = supplier_performance[
      (supplier_performance["OverallScore"] >= min_score) &
      (supplier_performance["OverallScore"] <= max_score)]
  \<close>
  The maximum of an empty column is NaN (\<open>None\<close>), which equals no quarter. A comparison
  with a missing score is false.
\<close>

definition latest_quarter :: "performance_row list \<Rightarrow> string option" where
  "latest_quarter performance_data =
     (case performance_data of
        [] \<Rightarrow> None
      | p # ps \<Rightarrow> Some (fold max (map Quarter ps) (Quarter p)))"

definition latest_performance :: "performance_row list \<Rightarrow> performance_row list" where
  "latest_performance performance_data =
     filter (\<lambda>p. Some (Quarter p) = latest_quarter performance_data) performance_data"

definition merged_scores ::
  "supplier_row list \<Rightarrow> performance_row list \<Rightarrow> (supplier_row \<times> performance_row option) list" where
  "merged_scores filtered_suppliers performance_data =
     merge_left filtered_suppliers (latest_performance performance_data)
       supplier_row.SupplierID performance_row.SupplierID"

definition in_score_range :: "rat \<Rightarrow> rat \<Rightarrow> supplier_row \<times> performance_row option \<Rightarrow> bool" where
  "in_score_range min_score max_score m =
     (case snd m of
        None \<Rightarrow> False
      | Some p \<Rightarrow> OverallScore p \<ge> min_score \<and> OverallScore p \<le> max_score)"

definition supplier_performance ::
  "supplier_row list \<Rightarrow> performance_row list \<Rightarrow> rat \<times> rat
     \<Rightarrow> (supplier_row \<times> performance_row option) list" where
  "supplier_performance filtered_suppliers performance_data score_range =
     filter (in_score_range (fst score_range) (snd score_range))
            (merged_scores filtered_suppliers performance_data)"

definition supplier :: "string \<Rightarrow> string \<Rightarrow> string \<Rightarrow> string \<Rightarrow> supplier_row" where
  "supplier i n c k =
     \<lparr>supplier_row.SupplierID = i, SupplierName = n, Category = c, Country = k, City = ''Arnhem''\<rparr>"

definition performance :: "string \<Rightarrow> string \<Rightarrow> rat \<Rightarrow> performance_row" where
  "performance i q v =
     \<lparr>performance_row.SupplierID = i, Quarter = q, DeliveryScore = v, QualityScore = v,
      ResponsivenessScore = v, OverallScore = v\<rparr>"

definition two_suppliers :: "supplier_row list" where
  "two_suppliers = [supplier ''S1'' ''A'' ''IT'' ''NL'', supplier ''S2'' ''B'' ''HR'' ''DE'']"

definition scores :: "performance_row list" where
  "scores = [performance ''S1'' ''2023-Q4'' 8, performance ''S2'' ''2023-Q3'' 6,
             performance ''S9'' ''2023-Q4'' 9, performance ''S1'' ''2023-Q3'' 4]"

section \<open>DataFrame objects and the filter controls\<close>

text \<open>
  The pages hold DataFrames by reference: \<open>session_state.spend_data\<close> and
  \<open>filtered_data\<close> may name the same object, and a column assignment changes the
  object in place. A store is the list of the DataFrame objects created so far, a
  reference is a position in it. An object is its rows together with the columns
  assigned to it after loading, by name.
  \<^item> \<^verbatim>\<open>df.copy()\<close> creates a new object with the same contents;
  \<^item> \<^verbatim>\<open>df[mask]\<close> with a boolean mask creates a new object holding the rows the mask
    selects, in their order;
  \<^item> \<^verbatim>\<open>df[col] = values\<close> changes the object itself.
\<close>

record 'r frame =
  rows :: "'r list"
  assigned :: "(string \<times> string list) list"

type_synonym 'r store = "'r frame list"

definition alloc :: "'r store \<Rightarrow> 'r frame \<Rightarrow> 'r store \<times> nat" where
  "alloc h f = (h @ [f], length h)"

definition deref :: "'r store \<times> nat \<Rightarrow> 'r frame" where
  "deref s = fst s ! snd s"

definition df_copy :: "'r store \<Rightarrow> nat \<Rightarrow> 'r store \<times> nat" where
  "df_copy h df = alloc h (h ! df)"

definition select :: "bool list \<Rightarrow> 'a list \<Rightarrow> 'a list" where
  "select keep xs = map snd (filter fst (zip keep xs))"

definition df_getitem :: "'r store \<Rightarrow> nat \<Rightarrow> ('r \<Rightarrow> bool) \<Rightarrow> 'r store \<times> nat" where
  "df_getitem h df cond =
     (let keep = map cond (rows (h ! df))
      in alloc h \<lparr>rows = select keep (rows (h ! df)),
                  assigned = map (\<lambda>(c, vs). (c, select keep vs)) (assigned (h ! df))\<rparr>)"

definition df_setitem :: "'r store \<Rightarrow> nat \<Rightarrow> string \<Rightarrow> string list \<Rightarrow> 'r store" where
  "df_setitem h df col vals =
     h[df := (h ! df)\<lparr>assigned := AList.update col vals (assigned (h ! df))\<rparr>]"

text \<open>
  One select box: the sentinel entry leaves \<open>filtered_data\<close> as it is, any other entry
  keeps the rows whose column equals it.
  \<^verbatim>\<open>
  if selected_category != "All Categories":
      filtered_data = filtered_data[filtered_data["Category"] == selected_category]
  \<close>
\<close>

definition filter_step ::
  "string \<Rightarrow> ('r \<Rightarrow> string) \<Rightarrow> string \<Rightarrow> 'r store \<times> nat \<Rightarrow> 'r store \<times> nat" where
  "filter_step all_label col selected s =
     (if selected \<noteq> all_label
      then df_getitem (fst s) (snd s) (\<lambda>r. col r = selected)
      else s)"

text \<open>
  \<^verbatim>\<open>
  if len(date_range) == 2:
      start_date, end_date = date_range
      filtered_data = filtered_data[(dates >= start_date) & (dates <= end_date)]
  \<close>
\<close>

definition date_step :: "date list \<Rightarrow> spend_row store \<times> nat \<Rightarrow> spend_row store \<times> nat" where
  "date_step date_range s =
     (if length date_range = 2
      then df_getitem (fst s) (snd s)
             (\<lambda>r. Date r \<ge> date_range ! 0 \<and> Date r \<le> date_range ! 1)
      else s)"

text \<open>
  Category intelligence page: \<^verbatim>\<open>filtered_data = spend_data.copy()\<close>, then the category,
  business-unit and date controls; later, for the trend chart, the page assigns the
  \<open>Month\<close> column to \<open>filtered_data\<close> in place.
\<close>

definition ci_apply_filters ::
  "spend_row store \<Rightarrow> nat \<Rightarrow> string \<Rightarrow> string \<Rightarrow> date list \<Rightarrow> spend_row store \<times> nat" where
  "ci_apply_filters h spend_data selected_category selected_bu date_range =
     date_step date_range
       (filter_step ''All Business Units'' BusinessUnit selected_bu
          (filter_step ''All Categories'' spend_row.Category selected_category
             (df_copy h spend_data)))"

definition ci_assign_month :: "spend_row store \<times> nat \<Rightarrow> spend_row store" where
  "ci_assign_month s = df_setitem (fst s) (snd s) ''Month'' (map Month (rows (deref s)))"

text \<open>
  Supplier risk page: \<^verbatim>\<open>filtered_suppliers = supplier_data.copy()\<close>, then the category
  and country controls.
\<close>

definition sr_apply_filters ::
  "supplier_row store \<Rightarrow> nat \<Rightarrow> string \<Rightarrow> string \<Rightarrow> supplier_row store \<times> nat" where
  "sr_apply_filters h supplier_data selected_category selected_country =
     filter_step ''All Countries'' Country selected_country
       (filter_step ''All Categories'' supplier_row.Category selected_category
          (df_copy h supplier_data))"

definition spend_in :: "string \<Rightarrow> string \<Rightarrow> date \<Rightarrow> spend_row" where
  "spend_in c b d =
     \<lparr>Supplier = ''A'', spend_row.Category = c, SubCategory = ''HW'', BusinessUnit = b,
      Date = d, Amount = 10\<rparr>"

definition session_spend :: "spend_row store" where
  "session_spend =
     [\<lparr>rows = [spend_in ''IT'' ''Ops'' (2023, 1, 5), spend_in ''HR'' ''Ops'' (2023, 2, 6),
               spend_in ''IT'' ''Sales'' (2023, 3, 7), spend_in ''IT'' ''Ops'' (2023, 4, 8)],
       assigned = []\<rparr>]"

definition session_suppliers :: "supplier_row store" where
  "session_suppliers = [\<lparr>rows = two_suppliers, assigned = []\<rparr>]"

section \<open>Heatmap builder\<close>

text \<open>
  \<^verbatim>\<open>
  def create_risk_heatmap(data, x_dim='Category', y_dim='BusinessUnit', value='Amount'):
      if data.empty or len(data[x_dim].unique()) < 2 or len(data[y_dim].unique()) < 2:
          fig = go.Figure()
          fig.add_annotation(text="Not enough data to generate heatmap.<br>Try adjusting your filters.", ...)
          return fig
      df_grouped = data.groupby([y_dim, x_dim])[value].sum().reset_index()
      df_pivot = df_grouped.pivot(index=y_dim, columns=x_dim, values=value)
      df_pivot = df_pivot.fillna(0)
      max_value = df_pivot.values.max()
      fig = go.Figure(data=go.Heatmap(z=df_pivot.values, x=df_pivot.columns, y=df_pivot.index, ...))
      annotations = []
      for i, row in enumerate(df_pivot.index):
          for j, col in enumerate(df_pivot.columns):
              val = df_pivot.iloc[i, j]
              if val == 0:
                  continue
              if val >= 1000000:   text = f"${val/1000000:.1f}M"
              elif val >= 1000:    text = f"${val/1000:.1f}K"
              else:                text = f"${val:.0f}"
              font_color = 'white' if val > max_value / 2 else 'black'
              annotations.append(dict(x=col, y=row, text=text,
                                      font=dict(color=font_color, size=10), showarrow=False))
      fig.update_layout(..., annotations=annotations, ...)
      return fig
  \<close>
  The dimensions and the value are the accessors of the chosen columns. The digits that
  Python's float formatting prints for \<open>.0f\<close> and \<open>.1f\<close> are outside the model: the two
  formatters are parameters. A figure is either the empty state with its message or the
  heatmap with its grid, axis labels and cell annotations; titles and sizes are left out.
  The maximum of an empty array raises in numpy: \<open>None\<close>.
\<close>

record annotation =
  ann_x :: string
  ann_y :: string
  ann_text :: string
  font_color :: string

record heatmap =
  heat_z :: "rat list list"
  heat_x :: "string list"
  heat_y :: "string list"
  annotations :: "annotation list"

datatype figure = Empty_state string | Heatmap heatmap

definition df_pivot ::
  "('r \<Rightarrow> string) \<Rightarrow> ('r \<Rightarrow> string) \<Rightarrow> ('r \<Rightarrow> rat) \<Rightarrow> 'r list
     \<Rightarrow> string list \<times> string list \<times> rat list list" where
  "df_pivot x_dim y_dim value data =
     (let grouped = groupby_sum (\<lambda>r. (y_dim r, x_dim r)) value data;
          index = sort (remdups (map (\<lambda>g. fst (fst g)) grouped));
          columns = sort (remdups (map (\<lambda>g. snd (fst g)) grouped))
      in (index, columns,
          map (\<lambda>row. map (\<lambda>col. case map_of grouped (row, col) of
                                     None \<Rightarrow> 0
                                   | Some v \<Rightarrow> v) columns) index))"

definition values_max :: "rat list list \<Rightarrow> rat option" where
  "values_max vals =
     (case concat vals of
        [] \<Rightarrow> None
      | v # vs \<Rightarrow> Some (fold max vs v))"

definition cell_text :: "(rat \<Rightarrow> string) \<Rightarrow> (rat \<Rightarrow> string) \<Rightarrow> rat \<Rightarrow> string" where
  "cell_text fmt_0f fmt_1f val =
     (if val \<ge> 1000000 then ''$'' @ fmt_1f (val / 1000000) @ ''M''
      else if val \<ge> 1000 then ''$'' @ fmt_1f (val / 1000) @ ''K''
      else ''$'' @ fmt_0f val)"

definition cell_annotation ::
  "(rat \<Rightarrow> string) \<Rightarrow> (rat \<Rightarrow> string) \<Rightarrow> rat \<Rightarrow> string \<Rightarrow> string \<Rightarrow> rat \<Rightarrow> annotation" where
  "cell_annotation fmt_0f fmt_1f max_value col row val =
     \<lparr>ann_x = col, ann_y = row, ann_text = cell_text fmt_0f fmt_1f val,
      font_color = (if val > max_value / 2 then ''white'' else ''black'')\<rparr>"

definition create_risk_heatmap ::
  "(rat \<Rightarrow> string) \<Rightarrow> (rat \<Rightarrow> string) \<Rightarrow> 'r list
     \<Rightarrow> ('r \<Rightarrow> string) \<Rightarrow> ('r \<Rightarrow> string) \<Rightarrow> ('r \<Rightarrow> rat) \<Rightarrow> figure option" where
  "create_risk_heatmap fmt_0f fmt_1f data x_dim y_dim value =
     (if data = [] \<or> length (remdups (map x_dim data)) < 2
                   \<or> length (remdups (map y_dim data)) < 2
      then Some (Empty_state ''Not enough data to generate heatmap.<br>Try adjusting your filters.'')
      else
        (case df_pivot x_dim y_dim value data of (index, columns, vals) \<Rightarrow>
           (case values_max vals of
              None \<Rightarrow> None
            | Some max_value \<Rightarrow>
                Some (Heatmap
                  \<lparr>heat_z = vals, heat_x = columns, heat_y = index,
                   annotations =
                     concat (map (\<lambda>(i, row).
                       concat (map (\<lambda>(j, col).
                         if vals ! i ! j = 0 then []
                         else [cell_annotation fmt_0f fmt_1f max_value col row (vals ! i ! j)])
                       (enumerate 0 columns)))
                     (enumerate 0 index))\<rparr>))))"

text \<open>
  The spec's wording of a grid cell: the sum of the values of the rows of that row label
  and column label, 0 when there is none.
\<close>

definition spec_cell :: "('r \<Rightarrow> string) \<Rightarrow> ('r \<Rightarrow> string) \<Rightarrow> ('r \<Rightarrow> rat) \<Rightarrow> 'r list \<Rightarrow> string \<Rightarrow> string \<Rightarrow> rat" where
  "spec_cell x_dim y_dim value data row col =
     sum_list (map value (filter (\<lambda>r. y_dim r = row \<and> x_dim r = col) data))"

definition spend_of :: "string \<Rightarrow> string \<Rightarrow> rat \<Rightarrow> spend_row" where
  "spend_of c b a =
     \<lparr>Supplier = ''A'', spend_row.Category = c, SubCategory = ''HW'', BusinessUnit = b,
      Date = (2023, 1, 5), Amount = a\<rparr>"

definition heat_rows :: "spend_row list" where
  "heat_rows = [spend_of ''IT'' ''Ops'' 1000000, spend_of ''HR'' ''Ops'' 2500,
                spend_of ''IT'' ''Sales'' 40, spend_of ''IT'' ''Ops'' 500000]"

definition one_category :: "spend_row list" where
  "one_category = [spend_of ''IT'' ''Ops'' 100, spend_of ''IT'' ''Sales'' 40]"

section \<open>Uploads: validation and the data store\<close>

text \<open>
  An uploaded table is the DataFrame that pandas parsed: its columns in order, each with
  its name, its dtype and its cells; a cell can be missing (NaN or None). Parsing itself
  is pandas': \<open>read_csv\<close> and \<open>read_excel\<close> are parameters that either return the
  table or raise, \<open>Inl\<close> carrying the text of the exception.
\<close>

datatype cell = Null | Num rat | Str string

datatype dtype = Int64 | Float64 | Bool | Object | Datetime64

record column =
  col_name :: string
  col_dtype :: dtype
  col_values :: "cell list"

type_synonym dataframe = "column list"

record uploaded_file =
  name :: string
  content :: string

type_synonym reader = "uploaded_file \<Rightarrow> string + dataframe"

definition columns :: "dataframe \<Rightarrow> string list" where
  "columns data = map col_name data"

text \<open>\<^verbatim>\<open>data[col]\<close>: the column of that name; a missing name raises KeyError.\<close>

definition getitem :: "dataframe \<Rightarrow> string \<Rightarrow> string + column" where
  "getitem data col =
     (case find (\<lambda>c. col_name c = col) data of
        None \<Rightarrow> Inl (''KeyError: '' @ col)
      | Some c \<Rightarrow> Inr c)"

definition is_numeric_dtype :: "dtype \<Rightarrow> bool" where
  "is_numeric_dtype d \<longleftrightarrow> d = Int64 \<or> d = Float64 \<or> d = Bool"

definition isnull_sum :: "column \<Rightarrow> nat" where
  "isnull_sum c = length (filter (\<lambda>v. v = Null) (col_values c))"

definition endswith :: "string \<Rightarrow> string \<Rightarrow> bool" where
  "endswith s suffix \<longleftrightarrow>
     length suffix \<le> length s \<and> drop (length s - length suffix) s = suffix"

fun join :: "string \<Rightarrow> string list \<Rightarrow> string" where
  "join sep [] = []"
| "join sep [s] = s"
| "join sep (s # t # ts) = s @ sep @ join sep (t # ts)"

text \<open>
  \<^verbatim>\<open>
  def load_data(file, file_type=None):
      if file_type is None:
          if file.name.endswith('.csv'):     file_type = 'csv'
          elif file.name.endswith('.xlsx'):  file_type = 'excel'
          else: raise ValueError("Unsupported file type. Please upload a CSV or Excel file.")
      if file_type == 'csv':     return pd.read_csv(file)
      elif file_type == 'excel': return pd.read_excel(file)
      else: raise ValueError("Unsupported file type. Please upload a CSV or Excel file.")
  \<close>
\<close>

definition load_data :: "reader \<Rightarrow> reader \<Rightarrow> uploaded_file \<Rightarrow> string option \<Rightarrow> string + dataframe" where
  "load_data read_csv read_excel file file_type =
     (case (case file_type of
              Some t \<Rightarrow> Inr t
            | None \<Rightarrow>
                if endswith (name file) ''.csv'' then Inr ''csv''
                else if endswith (name file) ''.xlsx'' then Inr ''excel''
                else Inl ''Unsupported file type. Please upload a CSV or Excel file.'') of
        Inl e \<Rightarrow> Inl e
      | Inr t \<Rightarrow>
          if t = ''csv'' then read_csv file
          else if t = ''excel'' then read_excel file
          else Inl ''Unsupported file type. Please upload a CSV or Excel file.'')"

text \<open>
  \<open>validate_data\<close> returns the triple \<open>(is_valid, message, data)\<close>. Its body runs
  inside \<^verbatim>\<open>try: ... except Exception as e:\<close>; \<open>validate_body\<close> is the body, \<open>Inl\<close>
  an exception raised in it, which the handler turns into
  \<^verbatim>\<open>(False, f"Error during validation: {str(e)}", None)\<close>. The body picks the file
  type from the extension (or returns the unsupported-type triple), loads the table, and
  then checks it; \<open>validate_loaded\<close> is that last part. Each of the four known
  data types has its own list of required columns, written out in its branch:
  \<^verbatim>\<open>
  missing_columns = [col for col in required_columns if col not in data.columns]
  if missing_columns:
      return False, f"Missing required columns: {', '.join(missing_columns)}", None
  \<close>
  and Spend Data goes on to check the dtype of Amount and the nulls of Supplier. Any
  other data type passes without a check.
\<close>

definition missing_columns :: "string list \<Rightarrow> dataframe \<Rightarrow> string list" where
  "missing_columns required_columns data =
     filter (\<lambda>col. col \<notin> set (columns data)) required_columns"

definition validate_loaded ::
  "dataframe \<Rightarrow> string \<Rightarrow> string + (bool \<times> string \<times> dataframe option)" where
  "validate_loaded data data_type =
    (if data_type = ''Spend Data'' then
       (if missing_columns [''Supplier'', ''Category'', ''SubCategory'', ''BusinessUnit'',
                            ''Date'', ''Amount''] data \<noteq> []
        then Inr (False, ''Missing required columns: '' @ join '', ''
                    (missing_columns [''Supplier'', ''Category'', ''SubCategory'',
                                      ''BusinessUnit'', ''Date'', ''Amount''] data), None)
        else
          case getitem data ''Amount'' of
            Inl e \<Rightarrow> Inl e
          | Inr amount \<Rightarrow>
              if \<not> is_numeric_dtype (col_dtype amount)
              then Inr (False, ''Amount column must contain numeric values'', None)
              else
                case getitem data ''Supplier'' of
                  Inl e \<Rightarrow> Inl e
                | Inr supplier_col \<Rightarrow>
                    if isnull_sum supplier_col > 0
                    then Inr (False, ''Found '' @ str_nat (isnull_sum supplier_col)
                                @ '' rows with missing supplier information'', None)
                    else Inr (True, ''Data validated successfully'', Some data))
     else if data_type = ''Supplier Master Data'' then
       (if missing_columns [''SupplierID'', ''SupplierName'', ''Category'', ''Country'',
                            ''City'', ''ContactEmail''] data \<noteq> []
        then Inr (False, ''Missing required columns: '' @ join '', ''
                    (missing_columns [''SupplierID'', ''SupplierName'', ''Category'',
                                      ''Country'', ''City'', ''ContactEmail''] data), None)
        else Inr (True, ''Data validated successfully'', Some data))
     else if data_type = ''Contract Data'' then
       (if missing_columns [''ContractID'', ''SupplierID'', ''StartDate'', ''EndDate'',
                            ''Value'', ''Category''] data \<noteq> []
        then Inr (False, ''Missing required columns: '' @ join '', ''
                    (missing_columns [''ContractID'', ''SupplierID'', ''StartDate'',
                                      ''EndDate'', ''Value'', ''Category''] data), None)
        else Inr (True, ''Data validated successfully'', Some data))
     else if data_type = ''Performance Data'' then
       (if missing_columns [''SupplierID'', ''Quarter'', ''DeliveryScore'', ''QualityScore'',
                            ''ResponsivenessScore'', ''OverallScore''] data \<noteq> []
        then Inr (False, ''Missing required columns: '' @ join '', ''
                    (missing_columns [''SupplierID'', ''Quarter'', ''DeliveryScore'',
                                      ''QualityScore'', ''ResponsivenessScore'',
                                      ''OverallScore''] data), None)
        else Inr (True, ''Data validated successfully'', Some data))
     else Inr (True, ''Data validated successfully'', Some data))"

definition validate_body ::
  "reader \<Rightarrow> reader \<Rightarrow> uploaded_file \<Rightarrow> string \<Rightarrow> string + (bool \<times> string \<times> dataframe option)" where
  "validate_body read_csv read_excel file data_type =
     (case (if endswith (name file) ''.csv'' then Inr ''csv''
            else if endswith (name file) ''.xlsx'' then Inr ''excel''
            else Inl (False, ''Unsupported file type. Please upload a CSV or Excel file.'', None)) of
        Inl early_return \<Rightarrow> Inr early_return
      | Inr file_type \<Rightarrow>
          (case load_data read_csv read_excel file (Some file_type) of
             Inl e \<Rightarrow> Inl e
           | Inr data \<Rightarrow> validate_loaded data data_type))"

definition validate_data ::
  "reader \<Rightarrow> reader \<Rightarrow> uploaded_file \<Rightarrow> string \<Rightarrow> bool \<times> string \<times> dataframe option" where
  "validate_data read_csv read_excel file data_type =
     (case validate_body read_csv read_excel file data_type of
        Inl e \<Rightarrow> (False, ''Error during validation: '' @ e, None)
      | Inr result \<Rightarrow> result)"

text \<open>
  The upload handler of the sidebar. The session state is a dictionary from names to
  values; the select box offers exactly the four keys of \<open>data_type_map\<close>. The notice is
  what \<open>st.success\<close> or \<open>st.error\<close> shows, without its leading emoji.
  \<^verbatim>\<open>
  if uploaded_file is not None:
      data_type_map = {"Spend Data": "spend_data", "Supplier Master Data": "supplier_data",
                       "Contract Data": "contract_data", "Performance Data": "performance_data"}
      state_var = data_type_map[data_type]
      is_valid, message, data = validate_data(uploaded_file, data_type)
      if is_valid:
          st.session_state[state_var] = data
          st.success(f"... {data_type} loaded successfully!")
      else:
          st.error(f"... {message}")
  \<close>
\<close>

type_synonym session_state = "string \<rightharpoonup> dataframe option"

datatype notice = Success string | Error string

definition data_type_map :: "(string \<times> string) list" where
  "data_type_map =
     [(''Spend Data'', ''spend_data''), (''Supplier Master Data'', ''supplier_data''),
      (''Contract Data'', ''contract_data''), (''Performance Data'', ''performance_data'')]"

definition upload :: 
  "reader \<Rightarrow> reader \<Rightarrow> session_state \<Rightarrow> uploaded_file option \<Rightarrow> string
     \<Rightarrow> string + (session_state \<times> notice option)" where
  "upload read_csv read_excel session uploaded data_type =
     (case uploaded of
        None \<Rightarrow> Inr (session, None)
      | Some file \<Rightarrow>
          (case map_of data_type_map data_type of
             None \<Rightarrow> Inl (''KeyError: '' @ data_type)
           | Some state_var \<Rightarrow>
               (case validate_data read_csv read_excel file data_type of
                  (is_valid, message, data) \<Rightarrow>
                    if is_valid
                    then Inr (session(state_var \<mapsto> data),
                              Some (Success (data_type @ '' loaded successfully!'')))
                    else Inr (session, Some (Error message)))))"

text \<open>
  The spec's wording of the validator's conditions: the required columns of a data type,
  a numeric Amount column, and a Supplier column without a missing value.
\<close>

definition required_columns :: "string \<Rightarrow> string list" where
  "required_columns data_type =
     (if data_type = ''Spend Data''
        then [''Supplier'', ''Category'', ''SubCategory'', ''BusinessUnit'', ''Date'', ''Amount'']
      else if data_type = ''Supplier Master Data''
        then [''SupplierID'', ''SupplierName'', ''Category'', ''Country'', ''City'', ''ContactEmail'']
      else if data_type = ''Contract Data''
        then [''ContractID'', ''SupplierID'', ''StartDate'', ''EndDate'', ''Value'', ''Category'']
      else if data_type = ''Performance Data''
        then [''SupplierID'', ''Quarter'', ''DeliveryScore'', ''QualityScore'',
              ''ResponsivenessScore'', ''OverallScore'']
      else [])"

definition amount_is_numeric :: "dataframe \<Rightarrow> bool" where
  "amount_is_numeric data \<longleftrightarrow>
     (case find (\<lambda>c. col_name c = ''Amount'') data of
        None \<Rightarrow> False
      | Some c \<Rightarrow> is_numeric_dtype (col_dtype c))"

definition supplier_has_no_null :: "dataframe \<Rightarrow> bool" where
  "supplier_has_no_null data \<longleftrightarrow>
     (case find (\<lambda>c. col_name c = ''Supplier'') data of
        None \<Rightarrow> False
      | Some c \<Rightarrow> Null \<notin> set (col_values c))"

definition parsed :: "reader \<Rightarrow> reader \<Rightarrow> uploaded_file \<Rightarrow> dataframe \<Rightarrow> bool" where
  "parsed read_csv read_excel file data \<longleftrightarrow>
     endswith (name file) ''.csv'' \<and> read_csv file = Inr data
     \<or> \<not> endswith (name file) ''.csv'' \<and> endswith (name file) ''.xlsx''
        \<and> read_excel file = Inr data"

definition text_col :: "string \<Rightarrow> cell list \<Rightarrow> column" where
  "text_col n vs = \<lparr>col_name = n, col_dtype = Object, col_values = vs\<rparr>"

definition spend_upload :: "dataframe" where
  "spend_upload =
     [text_col ''Supplier'' [Str ''A'', Str ''B''], text_col ''Category'' [Str ''IT'', Str ''HR''],
      text_col ''SubCategory'' [Str ''HW'', Str ''Pay''], text_col ''BusinessUnit'' [Str ''Ops'', Null],
      text_col ''Date'' [Str ''2023-01-05'', Str ''2023-02-06''],
      \<lparr>col_name = ''Amount'', col_dtype = Float64, col_values = [Num 10, Num (5 / 2)]\<rparr>,
      text_col ''Notes'' [Null, Str ''x'']]"

definition no_amount_upload :: "dataframe" where
  "no_amount_upload =
     [text_col ''Supplier'' [Str ''A''], text_col ''Category'' [Str ''IT''],
      text_col ''BusinessUnit'' [Str ''Ops''], text_col ''Date'' [Str ''2023-01-05'']]"

definition csv_file :: "uploaded_file" where
  "csv_file = \<lparr>name = ''spend.csv'', content = ''...''\<rparr>"

definition pdf_file :: "uploaded_file" where
  "pdf_file = \<lparr>name = ''spend.pdf'', content = ''...''\<rparr>"

definition session0 :: "session_state" where
  "session0 = [''spend_data'' \<mapsto> Some no_amount_upload]"

definition the_inr :: "'a + 'b \<Rightarrow> 'b" where
  "the_inr r = (case r of Inr v \<Rightarrow> v)"

section \<open>Properties\<close>

subsection \<open>Grouping\<close>

lemma groupby_sum_keys:
  "map fst (groupby_sum key val df) = sort (remdups (map key df))"
  by (simp add: groupby_sum_def comp_def)

lemma length_groupby_sum:
  "length (groupby_sum key val df) = card (key ` set df)"
proof -
  have "length (groupby_sum key val df) = length (remdups (map key df))"
    by (simp add: groupby_sum_def)
  also have "\<dots> = card (set (map key df))"
    by (rule length_remdups_card_conv)
  finally show ?thesis by simp
qed

lemma groupby_sum_pairs:
  "groupby_sum key val df = groupby_sum fst snd (map (\<lambda>r. (key r, val r)) df)"
  by (simp add: groupby_sum_def filter_map comp_def)

lemma sum_list_indicator_notin:
  fixes v :: rat
  shows "k \<notin> set ks \<Longrightarrow> (\<Sum>j\<leftarrow>ks. if k = j then v else 0) = 0"
  by (induction ks) auto

lemma sum_list_indicator:
  fixes v :: rat
  assumes "distinct ks" "k \<in> set ks"
  shows "(\<Sum>j\<leftarrow>ks. if k = j then v else 0) = v"
  using assms by (induction ks) (auto simp: sum_list_indicator_notin)

text \<open>Summing the group sums over any duplicate-free list of all keys gives the grand total.\<close>

lemma sum_list_groups:
  fixes val :: "'r \<Rightarrow> rat"
  assumes "distinct ks" "key ` set df \<subseteq> set ks"
  shows "(\<Sum>k\<leftarrow>ks. sum_list (map val (filter (\<lambda>r. key r = k) df))) = sum_list (map val df)"
  using assms
proof (induction df)
  case Nil
  then show ?case by simp
next
  case (Cons r df)
  have "(\<Sum>k\<leftarrow>ks. sum_list (map val (filter (\<lambda>r. key r = k) (r # df))))
      = (\<Sum>k\<leftarrow>ks. (if key r = k then val r else 0)
                   + sum_list (map val (filter (\<lambda>r. key r = k) df)))"
    by (rule arg_cong[where f = sum_list], rule map_cong) auto
  also have "\<dots> = (\<Sum>k\<leftarrow>ks. if key r = k then val r else 0)
               + (\<Sum>k\<leftarrow>ks. sum_list (map val (filter (\<lambda>r. key r = k) df)))"
    by (simp add: sum_list_addf)
  also have "\<dots> = val r + sum_list (map val df)"
    using Cons by (simp add: sum_list_indicator)
  finally show ?case by simp
qed

lemma sum_list_groupby_sum:
  "sum_list (map snd (groupby_sum key val df)) = sum_list (map val df)"
proof -
  have "sum_list (map snd (groupby_sum key val df))
      = (\<Sum>k\<leftarrow>sort (remdups (map key df)). sum_list (map val (filter (\<lambda>r. key r = k) df)))"
    by (simp add: groupby_sum_def comp_def)
  also have "\<dots> = sum_list (map val df)"
    by (rule sum_list_groups) auto
  finally show ?thesis .
qed

lemma sorted_hd_Min:
  "sorted xs \<Longrightarrow> xs \<noteq> [] \<Longrightarrow> hd xs = Min (set xs)"
  by (cases xs) (auto intro!: Min_eqI[symmetric])

lemma sorted_last_Max:
  "sorted xs \<Longrightarrow> xs \<noteq> [] \<Longrightarrow> last xs = Max (set xs)"
  by (induction xs) (auto simp: max_def intro: antisym)

lemma group_keys_nonempty:
  "df \<noteq> [] \<Longrightarrow> sort (remdups (map key df)) \<noteq> []"
  by (metis length_0_conv length_sort list.map_disc_iff remdups_eq_nil_iff)

lemma hd_groupby_sum:
  assumes "df \<noteq> []"
  shows "hd (groupby_sum key val df) =
     (Min (key ` set df), sum_list (map val (filter (\<lambda>r. key r = Min (key ` set df)) df)))"
proof -
  let ?ks = "sort (remdups (map key df))"
  have ne: "?ks \<noteq> []" using assms by (rule group_keys_nonempty)
  have "hd ?ks = Min (set ?ks)" using ne by (intro sorted_hd_Min) auto
  then have "hd ?ks = Min (key ` set df)" by simp
  then show ?thesis using ne by (simp add: groupby_sum_def hd_map)
qed

lemma last_groupby_sum:
  assumes "df \<noteq> []"
  shows "last (groupby_sum key val df) =
     (Max (key ` set df), sum_list (map val (filter (\<lambda>r. key r = Max (key ` set df)) df)))"
proof -
  let ?ks = "sort (remdups (map key df))"
  have ne: "?ks \<noteq> []" using assms by (rule group_keys_nonempty)
  have "last ?ks = Max (set ?ks)" using ne by (intro sorted_last_Max) auto
  then have "last ?ks = Max (key ` set df)" by simp
  then show ?thesis using ne by (simp add: groupby_sum_def last_map)
qed

text \<open>Sorting by a column in descending order lists that column's values from largest to smallest.\<close>

lemma map_sort_values_desc:
  "map val (sort_values_desc val df) = rev (sort (map val df))"
proof -
  let ?ys = "map val (sort_key (\<lambda>r. - val r) df)"
  have "sorted (map (\<lambda>r. - val r) (sort_key (\<lambda>r. - val r) df))"
    by (rule sorted_sort_key)
  then have "sorted (rev ?ys)"
    by (simp add: sorted_map sorted_wrt_rev sorted_wrt_map)
  moreover have "mset (rev ?ys) = mset (map val df)"
    by simp
  ultimately have "sort (map val df) = rev ?ys"
    by (metis properties_for_sort)
  then show ?thesis
    by (simp add: sort_values_desc_def)
qed

lemma length_suppliers_df:
  "length (suppliers_df filtered_data) = min 10 (card (Supplier ` set filtered_data))"
  by (simp add: suppliers_df_def head_def sort_values_desc_def length_groupby_sum min.commute)

subsection \<open>Supplier-concentration insight\<close>

text \<open>
  C7. The three supplier-concentration rules are tried in a fixed order on the top-3
  concentration \<open>c\<close> and the supplier count \<open>n\<close>: \<open>c > 75\<close> gives the dependency-risk
  message; otherwise \<open>c < 30\<close> with \<open>n > 7\<close> gives the fragmentation message; otherwise
  \<open>50 \<le> c \<le> 75\<close> gives the balanced message; at most one message is shown, and no two
  of the three conditions can hold together. The page counts the rows of the top-10
  supplier table, which exceeds 7 exactly when the number of distinct suppliers does.
\<close>

theorem concentration_rules_priority:
  "supplier_insight filtered_data =
     (if top3_concentration filtered_data > 75 then Some Dependency_risk
      else if top3_concentration filtered_data < 30 \<and> card (Supplier ` set filtered_data) > 7
        then Some Fragmented
      else if 50 \<le> top3_concentration filtered_data \<and> top3_concentration filtered_data \<le> 75
        then Some Balanced
      else None)
   \<and> concentration_insight c n =
     (if c > 75 then Some Dependency_risk
      else if c < 30 \<and> n > 7 then Some Fragmented
      else if 50 \<le> c \<and> c \<le> 75 then Some Balanced
      else None)
   \<and> \<not> (c > 75 \<and> (c < 30 \<and> n > 7))
   \<and> \<not> (c > 75 \<and> (50 \<le> c \<and> c \<le> 75))
   \<and> \<not> ((c < 30 \<and> n > 7) \<and> (50 \<le> c \<and> c \<le> 75))"
proof -
  have "length (suppliers_df filtered_data) > 7 \<longleftrightarrow> card (Supplier ` set filtered_data) > 7"
    unfolding length_suppliers_df by auto
  then have "supplier_insight filtered_data =
     (if top3_concentration filtered_data > 75 then Some Dependency_risk
      else if top3_concentration filtered_data < 30 \<and> card (Supplier ` set filtered_data) > 7
        then Some Fragmented
      else if 50 \<le> top3_concentration filtered_data \<and> top3_concentration filtered_data \<le> 75
        then Some Balanced
      else None)"
    by (simp add: supplier_insight_def concentration_insight_def)
  then show ?thesis
    by (simp add: concentration_insight_def)
qed

subsection \<open>Concentration ratio\<close>

lemma top3_spend_eq:
  "top3_spend filtered_data = sum_list (take 3 (rev (sort (entity_totals filtered_data))))"
proof -
  have "map snd (suppliers_df filtered_data) = take 10 (rev (sort (entity_totals filtered_data)))"
    by (simp add: suppliers_df_def head_def take_map[symmetric] map_sort_values_desc
        entity_totals_def del: take_map)
  moreover have "map snd (head 3 (suppliers_df filtered_data))
      = take 3 (rev (sort (entity_totals filtered_data)))"
    by (simp add: suppliers_df_def head_def take_map[symmetric] map_sort_values_desc
        entity_totals_def del: take_map)
  moreover have "\<not> 3 \<le> length (suppliers_df filtered_data) \<Longrightarrow>
      take 10 (rev (sort (entity_totals filtered_data)))
        = take 3 (rev (sort (entity_totals filtered_data)))"
    by (simp add: suppliers_df_def head_def sort_values_desc_def entity_totals_def)
  ultimately show ?thesis
    by (simp add: top3_spend_def)
qed

lemma total_category_spend_eq:
  "total_category_spend filtered_data = sum_list (entity_totals filtered_data)"
  by (simp add: total_category_spend_def entity_totals_def sum_list_groupby_sum)

lemma entity_totals_100_100_100_700:
  "entity_totals totals_100_100_100_700 = [100, 100, 100, 700]"
  by (simp add: entity_totals_def groupby_sum_def totals_100_100_100_700_def)

lemma entity_totals_net_credit:
  "entity_totals net_credit = [- 100]"
  by (simp add: entity_totals_def groupby_sum_def net_credit_def)

text \<open>
  The page sorts the supplier totals in descending order before it takes three of them:
  for the totals 100, 100, 100 and 700 the top-3 sum is 900 and the ratio is 90 percent,
  not 30.
\<close>

theorem top3_concentration_100_100_100_700:
  "entity_totals totals_100_100_100_700 = [100, 100, 100, 700]
   \<and> top3_spend totals_100_100_100_700 = 900
   \<and> top3_concentration totals_100_100_100_700 = 90
   \<and> top3_concentration totals_100_100_100_700 \<noteq> 30"
  by (simp add: entity_totals_100_100_100_700 top3_concentration_def top3_spend_eq
      total_category_spend_eq)

text \<open>A net credit: the spec's ratio of the single total \<open>-100\<close> is 100, the page shows 0.\<close>

lemma top3_concentration_net_credit:
  "top3_concentration net_credit = 0 \<and> spec_concentration_ratio (entity_totals net_credit) = 100"
  by (simp add: entity_totals_net_credit top3_concentration_def total_category_spend_eq
      spec_concentration_ratio_def)

text \<open>
  C2 (as amended). For every table, the concentration ratio is the sum of the three
  largest per-supplier totals divided by the total over all suppliers, as a percentage,
  whenever that total is positive, and it is 0 whenever the total is zero or negative;
  the total the page divides by is the sum of the per-supplier totals. For the totals
  100, 100, 100 and 700 the ratio is 90 percent.
\<close>

theorem top3_concentration_ratio:
  "top3_concentration filtered_data =
     (if 0 < sum_list (entity_totals filtered_data)
      then spec_concentration_ratio (entity_totals filtered_data) else 0)
   \<and> total_category_spend filtered_data = sum_list (entity_totals filtered_data)
   \<and> (sum_list (entity_totals filtered_data) = 0 \<longrightarrow> top3_concentration filtered_data = 0)
   \<and> (entity_totals filtered_data = [100, 100, 100, 700] \<longrightarrow>
        top3_concentration filtered_data = 90)"
proof -
  have eq: "top3_concentration filtered_data =
     (if 0 < sum_list (entity_totals filtered_data)
      then spec_concentration_ratio (entity_totals filtered_data) else 0)"
    by (simp add: top3_concentration_def top3_spend_eq total_category_spend_eq
        spec_concentration_ratio_def)
  have "entity_totals filtered_data = [100, 100, 100, 700] \<Longrightarrow>
        top3_concentration filtered_data = 90"
    by (simp add: eq spec_concentration_ratio_def)
  with eq show ?thesis
    by (simp add: total_category_spend_eq)
qed

theorem top3_concentration_ratio_witness:
  "sum_list (entity_totals ([] :: spend_row list)) = 0
   \<and> top3_concentration ([] :: spend_row list) = 0
   \<and> entity_totals totals_100_100_100_700 = [100, 100, 100, 700]
   \<and> top3_concentration totals_100_100_100_700 = 90"
proof -
  have z: "sum_list (entity_totals ([] :: spend_row list)) = 0"
    by (simp add: entity_totals_def groupby_sum_def)
  have e: "entity_totals totals_100_100_100_700 = [100, 100, 100, 700]"
    by (rule entity_totals_100_100_100_700)
  from top3_concentration_ratio[of "[]"] z
  have "top3_concentration ([] :: spend_row list) = 0" by blast
  moreover from top3_concentration_ratio[of totals_100_100_100_700] e
  have "top3_concentration totals_100_100_100_700 = 90" by blast
  ultimately show ?thesis using z e by simp
qed

subsection \<open>Period change\<close>

lemma periods_monthly_totals:
  assumes "filtered_data \<noteq> []"
  shows "card (periods filtered_data) = length (monthly_totals filtered_data)"
    and "period_sum filtered_data (Min (periods filtered_data))
           = snd (hd (monthly_totals filtered_data))"
    and "period_sum filtered_data (Max (periods filtered_data))
           = snd (last (monthly_totals filtered_data))"
  by (simp_all add: periods_def period_sum_def monthly_totals_def length_groupby_sum
      hd_groupby_sum[OF assms] last_groupby_sum[OF assms])

lemma monthly_totals_1000_300_1200:
  "monthly_totals months_1000_300_1200
     = [(''2023-01'', 1000), (''2023-02'', 300), (''2023-03'', 1200)]"
proof -
  have "map (\<lambda>r. (Month r, Amount r)) months_1000_300_1200 =
     [(''2023-01'', 600), (''2023-03'', 1200), (''2023-01'', 400), (''2023-02'', 300)]"
    by (simp add: months_1000_300_1200_def spend_def Month_def zfill_def)
  then show ?thesis
    unfolding monthly_totals_def groupby_sum_pairs[of Month]
    by (simp add: groupby_sum_def)
qed

lemma monthly_totals_0_300_500:
  "monthly_totals months_0_300_500
     = [(''2023-01'', 0), (''2023-02'', 300), (''2023-03'', 500)]"
proof -
  have "map (\<lambda>r. (Month r, Amount r)) months_0_300_500 =
     [(''2023-01'', 0), (''2023-03'', 500), (''2023-02'', 300)]"
    by (simp add: months_0_300_500_def spend_def Month_def zfill_def)
  then show ?thesis
    unfolding monthly_totals_def groupby_sum_pairs[of Month]
    by (simp add: groupby_sum_def)
qed

lemma monthly_totals_1000_1200:
  "monthly_totals months_1000_1200 = [(''2023-01'', 1000), (''2023-02'', 1200)]"
proof -
  have "map (\<lambda>r. (Month r, Amount r)) months_1000_1200 =
     [(''2023-01'', 1000), (''2023-02'', 1200)]"
    by (simp add: months_1000_1200_def spend_def Month_def zfill_def)
  then show ?thesis
    unfolding monthly_totals_def groupby_sum_pairs[of Month]
    by (simp add: groupby_sum_def)
qed

lemma monthly_totals_credit_first:
  "monthly_totals months_credit_first
     = [(''2023-01'', - 100), (''2023-02'', 50), (''2023-03'', 100)]"
proof -
  have "map (\<lambda>r. (Month r, Amount r)) months_credit_first =
     [(''2023-01'', - 100), (''2023-02'', 50), (''2023-03'', 100)]"
    by (simp add: months_credit_first_def spend_def Month_def zfill_def)
  then show ?thesis
    unfolding monthly_totals_def groupby_sum_pairs[of Month]
    by (simp add: groupby_sum_def)
qed

text \<open>
  Two months with sums 1000 and 1200: the page computes no percentage at all, where the
  formula gives 20. Three months whose first sum is \<open>-100\<close> and whose last sum is 100:
  the page reports 0, where the formula gives \<open>-200\<close>.
\<close>

theorem change_pct_two_periods:
  "map snd (monthly_totals months_1000_1200) = [1000, 1200]
   \<and> change_pct months_1000_1200 = None
   \<and> change_pct months_1000_1200 \<noteq> Some (spec_period_change 1000 1200)
   \<and> map snd (monthly_totals months_credit_first) = [- 100, 50, 100]
   \<and> change_pct months_credit_first = Some 0
   \<and> spec_period_change (- 100) 100 = - 200"
  by (simp add: change_pct_def monthly_totals_1000_1200 monthly_totals_credit_first
      spec_period_change_def)

text \<open>
  C4 (as amended). For every table with at least three distinct months, the period
  change percentage is \<open>(last - first) / first * 100\<close> on the sums of the first and the
  last month whenever the first month's sum is positive, and 0 whenever that sum is zero
  or negative; for fewer than three months no percentage is computed. In particular,
  with at least three months, first 1000 and last 1200 give 20, and first 0 and last 500
  give 0. The first and the last month are those of the least and the greatest label,
  which is the chronological order (\<open>Month_chronological\<close> below).
\<close>

theorem change_pct_first_last:
  "change_pct filtered_data =
     (if 3 \<le> card (periods filtered_data) then
        Some (if 0 < period_sum filtered_data (Min (periods filtered_data))
              then spec_period_change (period_sum filtered_data (Min (periods filtered_data)))
                                      (period_sum filtered_data (Max (periods filtered_data)))
              else 0)
      else None)
   \<and> (3 \<le> card (periods filtered_data)
        \<and> period_sum filtered_data (Min (periods filtered_data)) = 1000
        \<and> period_sum filtered_data (Max (periods filtered_data)) = 1200
       \<longrightarrow> change_pct filtered_data = Some 20)
   \<and> (3 \<le> card (periods filtered_data)
        \<and> period_sum filtered_data (Min (periods filtered_data)) = 0
        \<and> period_sum filtered_data (Max (periods filtered_data)) = 500
       \<longrightarrow> change_pct filtered_data = Some 0)"
proof -
  have eq: "change_pct filtered_data =
     (if 3 \<le> card (periods filtered_data) then
        Some (if 0 < period_sum filtered_data (Min (periods filtered_data))
              then spec_period_change (period_sum filtered_data (Min (periods filtered_data)))
                                      (period_sum filtered_data (Max (periods filtered_data)))
              else 0)
      else None)"
  proof (cases "3 \<le> card (periods filtered_data)")
    case True
    then have ne: "filtered_data \<noteq> []" by (auto simp: periods_def)
    show ?thesis using True
      by (simp add: change_pct_def periods_monthly_totals[OF ne] spec_period_change_def Let_def)
  next
    case False
    then show ?thesis
      by (simp add: change_pct_def monthly_totals_def length_groupby_sum periods_def)
  qed
  show ?thesis
    unfolding eq by (simp add: spec_period_change_def)
qed

theorem change_pct_first_last_witness:
  "3 \<le> card (periods months_1000_300_1200)
   \<and> period_sum months_1000_300_1200 (Min (periods months_1000_300_1200)) = 1000
   \<and> period_sum months_1000_300_1200 (Max (periods months_1000_300_1200)) = 1200
   \<and> change_pct months_1000_300_1200 = Some 20
   \<and> 3 \<le> card (periods months_0_300_500)
   \<and> period_sum months_0_300_500 (Min (periods months_0_300_500)) = 0
   \<and> period_sum months_0_300_500 (Max (periods months_0_300_500)) = 500
   \<and> change_pct months_0_300_500 = Some 0"
proof -
  have ne1: "months_1000_300_1200 \<noteq> []" by (simp add: months_1000_300_1200_def)
  have ne2: "months_0_300_500 \<noteq> []" by (simp add: months_0_300_500_def)
  have h1: "3 \<le> card (periods months_1000_300_1200)
      \<and> period_sum months_1000_300_1200 (Min (periods months_1000_300_1200)) = 1000
      \<and> period_sum months_1000_300_1200 (Max (periods months_1000_300_1200)) = 1200"
    by (simp add: periods_monthly_totals[OF ne1] monthly_totals_1000_300_1200)
  have h2: "3 \<le> card (periods months_0_300_500)
      \<and> period_sum months_0_300_500 (Min (periods months_0_300_500)) = 0
      \<and> period_sum months_0_300_500 (Max (periods months_0_300_500)) = 500"
    by (simp add: periods_monthly_totals[OF ne2] monthly_totals_0_300_500)
  from change_pct_first_last[of months_1000_300_1200] h1
  have "change_pct months_1000_300_1200 = Some 20" by blast
  moreover from change_pct_first_last[of months_0_300_500] h2
  have "change_pct months_0_300_500 = Some 0" by blast
  ultimately show ?thesis using h1 h2 by simp
qed

subsection \<open>Month labels sort chronologically\<close>

text \<open>
  pandas timestamps have four-digit years, so a label is four digits, a hyphen and two
  digits, and the lexicographic order of labels is the order of (year, month).
\<close>

lemma of_char_digit: "n < 10 \<Longrightarrow> (of_char (digit_char n) :: nat) = 48 + n"
proof -
  assume "n < 10"
  then have "n \<in> set [0..<10]" by simp
  moreover have "list_all (\<lambda>k. (of_char (digit_char k) :: nat) = 48 + k) [0..<10]"
    by (simp add: digit_char_def upt_rec)
  ultimately show ?thesis
    unfolding list_all_iff by blast
qed

lemma digit_less: "a < 10 \<Longrightarrow> b < 10 \<Longrightarrow> digit_char a < digit_char b \<longleftrightarrow> a < b"
  by (simp add: less_char_def of_char_digit)

lemma digit_eq: "a < 10 \<Longrightarrow> b < 10 \<Longrightarrow> digit_char a = digit_char b \<longleftrightarrow> a = b"
  by (metis digit_less less_irrefl linorder_neqE_nat)

lemma str_nat_unfold:
  "str_nat n = (if n < 10 then [digit_char n] else str_nat (n div 10) @ [digit_char (n mod 10)])"
  by (subst str_nat.simps) (simp only: digit_char_def)

declare str_nat.simps [simp del]

lemma str_nat_1: "n < 10 \<Longrightarrow> str_nat n = [digit_char n]"
  by (subst str_nat_unfold) simp

lemma str_nat_2: "10 \<le> n \<Longrightarrow> n < 100 \<Longrightarrow> str_nat n = [digit_char (n div 10), digit_char (n mod 10)]"
  by (subst str_nat_unfold) (simp add: str_nat_1)

lemma str_nat_3: "100 \<le> n \<Longrightarrow> n < 1000 \<Longrightarrow> str_nat n = [digit_char (n div 100), digit_char (n div 10 mod 10), digit_char (n mod 10)]"
  by (subst str_nat_unfold) (simp add: str_nat_2 div_mult2_eq[symmetric])

lemma str_nat_4: "1000 \<le> n \<Longrightarrow> n < 10000 \<Longrightarrow> str_nat n = [digit_char (n div 1000), digit_char (n div 100 mod 10), digit_char (n div 10 mod 10), digit_char (n mod 10)]"
  by (subst str_nat_unfold) (simp add: str_nat_3 div_mult2_eq[symmetric])

lemma lex4:
  fixes a0 a1 a2 a3 b0 b1 b2 b3 :: nat
  assumes "a0 < 10" "a1 < 10" "a2 < 10" "b0 < 10" "b1 < 10" "b2 < 10"
  shows "(a3 < b3 \<or> a3 = b3 \<and> (a2 < b2 \<or> a2 = b2 \<and> (a1 < b1 \<or> a1 = b1 \<and> a0 < b0)))
     \<longleftrightarrow> 1000 * a3 + 100 * a2 + 10 * a1 + a0 < 1000 * b3 + 100 * b2 + 10 * b1 + b0"
  using assms by arith

lemma lex2:
  fixes a0 a1 b0 b1 :: nat
  assumes "a0 < 10" "b0 < 10"
  shows "(a1 < b1 \<or> a1 = b1 \<and> a0 < b0) \<longleftrightarrow> 10 * a1 + a0 < 10 * b1 + b0"
  using assms by arith

lemma digits4:
  "(y::nat) = 1000 * (y div 1000) + 100 * (y div 100 mod 10) + 10 * (y div 10 mod 10) + y mod 10"
proof -
  have a: "y div 10 div 10 = y div 100" by (simp add: div_mult2_eq[symmetric])
  have b: "y div 100 div 10 = y div 1000" by (simp add: div_mult2_eq[symmetric])
  have 1: "y = 10 * (y div 10) + y mod 10" by simp
  have 2: "y div 10 = 10 * (y div 100) + y div 10 mod 10"
    using div_mult_mod_eq[of "y div 10" 10] unfolding a by simp
  have 3: "y div 100 = 10 * (y div 1000) + y div 100 mod 10"
    using div_mult_mod_eq[of "y div 100" 10] unfolding b by simp
  from 1 2 3 show ?thesis by linarith
qed

lemma zfill_4: "1000 \<le> n \<Longrightarrow> n < 10000 \<Longrightarrow> zfill 4 n = [digit_char (n div 1000), digit_char (n div 100 mod 10), digit_char (n div 10 mod 10), digit_char (n mod 10)]"
  by (simp add: zfill_def str_nat_4)

lemma zfill_2:
  assumes "n < 100"
  shows "zfill 2 n = [digit_char (n div 10), digit_char (n mod 10)]"
proof (cases "n < 10")
  case True
  then have "digit_char (n div 10) = CHR 0x30" by (simp add: digit_char_def)
  with True show ?thesis by (simp add: zfill_def str_nat_1)
next
  case False
  with assms show ?thesis by (simp add: zfill_def str_nat_2)
qed

lemma strftime_Ym_less:
  assumes "1000 \<le> y" "y < 10000" "m < 100" "1000 \<le> y'" "y' < 10000" "m' < 100"
  shows "strftime_Ym (y, m, d) < strftime_Ym (y', m', d') \<longleftrightarrow> (y, m) < (y', m')"
proof -
  define a3 a2 a1 a0 where "a3 = y div 1000" and "a2 = y div 100 mod 10" and "a1 = y div 10 mod 10" and "a0 = y mod 10"
  define b3 b2 b1 b0 where "b3 = y' div 1000" and "b2 = y' div 100 mod 10" and "b1 = y' div 10 mod 10" and "b0 = y' mod 10"
  define p1 p0 where "p1 = m div 10" and "p0 = m mod 10"
  define q1 q0 where "q1 = m' div 10" and "q0 = m' mod 10"
  note defs = a3_def a2_def a1_def a0_def b3_def b2_def b1_def b0_def p1_def p0_def q1_def q0_def
  have bounds: "a3 < 10" "a2 < 10" "a1 < 10" "a0 < 10" "b3 < 10" "b2 < 10" "b1 < 10" "b0 < 10"
    "p1 < 10" "p0 < 10" "q1 < 10" "q0 < 10"
    using assms by (simp_all add: defs)
  have ey: "y = 1000 * a3 + 100 * a2 + 10 * a1 + a0"
    unfolding defs by (rule digits4)
  have ey': "y' = 1000 * b3 + 100 * b2 + 10 * b1 + b0"
    unfolding defs by (rule digits4)
  have em: "m = 10 * p1 + p0" "m' = 10 * q1 + q0"
    unfolding defs by simp_all
  have l: "strftime_Ym (y, m, d) = [digit_char a3, digit_char a2, digit_char a1, digit_char a0, CHR ''-'', digit_char p1, digit_char p0]"
    using assms by (simp add: zfill_4 zfill_2 defs)
  have r: "strftime_Ym (y', m', d') = [digit_char b3, digit_char b2, digit_char b1, digit_char b0, CHR ''-'', digit_char q1, digit_char q0]"
    using assms by (simp add: zfill_4 zfill_2 defs)
  have ylt: "(a3 < b3 \<or> a3 = b3 \<and> (a2 < b2 \<or> a2 = b2 \<and> (a1 < b1 \<or> a1 = b1 \<and> a0 < b0))) \<longleftrightarrow> y < y'"
    unfolding ey ey' using bounds by (intro lex4)
  have yeq: "(a3 = b3 \<and> a2 = b2 \<and> a1 = b1 \<and> a0 = b0) \<longleftrightarrow> y = y'"
  proof
    assume "a3 = b3 \<and> a2 = b2 \<and> a1 = b1 \<and> a0 = b0"
    then show "y = y'" using ey ey' by simp
  next
    assume "y = y'"
    then show "a3 = b3 \<and> a2 = b2 \<and> a1 = b1 \<and> a0 = b0" by (simp add: defs)
  qed
  have mlt: "(p1 < q1 \<or> p1 = q1 \<and> p0 < q0) \<longleftrightarrow> m < m'"
    unfolding em using bounds by (intro lex2)
  have "strftime_Ym (y, m, d) < strftime_Ym (y', m', d') \<longleftrightarrow>
     (a3 < b3 \<or> a3 = b3 \<and> (a2 < b2 \<or> a2 = b2 \<and> (a1 < b1 \<or> a1 = b1 \<and> (a0 < b0 \<or> a0 = b0 \<and> (p1 < q1 \<or> p1 = q1 \<and> p0 < q0)))))"
    unfolding l r using bounds by (simp add: digit_less digit_eq)
  also have "\<dots> \<longleftrightarrow> (a3 < b3 \<or> a3 = b3 \<and> (a2 < b2 \<or> a2 = b2 \<and> (a1 < b1 \<or> a1 = b1 \<and> a0 < b0)))
       \<or> (a3 = b3 \<and> a2 = b2 \<and> a1 = b1 \<and> a0 = b0) \<and> (p1 < q1 \<or> p1 = q1 \<and> p0 < q0)"
    by blast
  also have "\<dots> \<longleftrightarrow> y < y' \<or> y = y' \<and> m < m'"
    unfolding ylt yeq mlt ..
  finally show ?thesis by (auto simp: less_prod_def)
qed

lemma Month_chronological:
  assumes "1000 \<le> fst (Date r)" "fst (Date r) < 10000" "fst (snd (Date r)) < 100"
    and "1000 \<le> fst (Date r')" "fst (Date r') < 10000" "fst (snd (Date r')) < 100"
  shows "Month r < Month r' \<longleftrightarrow> year_month r < year_month r'"
proof -
  obtain y m d where d: "Date r = (y, m, d)" by (cases "Date r")
  obtain y' m' d' where d': "Date r' = (y', m', d')" by (cases "Date r'")
  show ?thesis
    using assms strftime_Ym_less[of y m y' m' d d']
    unfolding Month_def year_month_def d d' by simp
qed

subsection \<open>Spend percentile\<close>










subsection \<open>Left joins\<close>

lemma merge_left_Cons:
  "merge_left (l # left) right lo ro =
     (if lo l \<in> ro ` set right
      then map (\<lambda>r. (l, Some r)) (filter (\<lambda>r. ro r = lo l) right)
      else [(l, None)]) @ merge_left left right lo ro"
proof (cases "filter (\<lambda>r. ro r = lo l) right")
  case Nil
  then have "lo l \<notin> ro ` set right" by (auto simp: filter_empty_conv)
  with Nil show ?thesis by (simp add: merge_left_def)
next
  case (Cons m ms)
  then have "m \<in> set (filter (\<lambda>r. ro r = lo l) right)" by simp
  then have "lo l \<in> ro ` set right" by force
  with Cons show ?thesis by (simp add: merge_left_def)
qed

lemma merge_left_Nil: "merge_left [] right lo ro = []"
  by (simp add: merge_left_def)

lemma set_merge_left:
  "set (merge_left left right lo ro) =
     {(l, None) | l. l \<in> set left \<and> lo l \<notin> ro ` set right}
     \<union> {(l, Some r) | l r. l \<in> set left \<and> r \<in> set right \<and> ro r = lo l}"
  by (induction left) (auto simp: merge_left_Nil merge_left_Cons, (metis image_eqI)+)

lemma merge_left_filter_matched:
  "filter (\<lambda>m. snd m \<noteq> None) (merge_left left right lo ro)
     = merge_left (filter (\<lambda>l. lo l \<in> ro ` set right) left) right lo ro"
  by (induction left) (auto simp: merge_left_Nil merge_left_Cons filter_map comp_def)

lemma set_map_filter_keys:
  "set (List.map_filter key df) = {k. \<exists>r \<in> set df. key r = Some k}"
  by (induction df) (auto split: option.splits)

lemma groupby_mean_cong:
  assumes "filter (\<lambda>r. key r \<noteq> None) df = filter (\<lambda>r. key r \<noteq> None) df'"
  shows "groupby_mean key val df = groupby_mean key val df'"
proof -
  have 1: "List.map_filter key xs = List.map_filter key (filter (\<lambda>r. key r \<noteq> None) xs)" for xs
    by (induction xs) (auto split: option.splits)
  have 2: "filter (\<lambda>r. key r = Some k) xs
      = filter (\<lambda>r. key r = Some k) (filter (\<lambda>r. key r \<noteq> None) xs)" for k xs
    by (induction xs) auto
  have "List.map_filter key df = List.map_filter key df'"
    by (metis 1 assms)
  moreover have "filter (\<lambda>r. key r = Some k) df = filter (\<lambda>r. key r = Some k) df'" for k
    by (metis 2 assms)
  ultimately show ?thesis
    unfolding groupby_mean_def by simp
qed

lemma set_groupby_mean_keys:
  "fst ` set (groupby_mean key val df) = {k. \<exists>r \<in> set df. key r = Some k}"
proof -
  have "fst ` set (groupby_mean key val df) = set (List.map_filter key df)"
    by (force simp: groupby_mean_def image_iff)
  then show ?thesis by (simp add: set_map_filter_keys)
qed

lemma group_key_None: "(\<lambda>m. group_key m \<noteq> None) = (\<lambda>m. snd m \<noteq> None)"
  by (rule ext) (simp add: group_key_def split: option.splits)

lemma df_grouped_matched:
  "df_grouped pd sd metric =
   df_grouped (filter (\<lambda>p. performance_row.SupplierID p \<in> supplier_row.SupplierID ` set sd) pd) sd metric"
proof -
  let ?matched = "filter (\<lambda>p. performance_row.SupplierID p \<in> supplier_row.SupplierID ` set sd) pd"
  have m: "filter (\<lambda>m. snd m \<noteq> None) (merged_data pd sd) = merged_data ?matched sd"
    unfolding merged_data_def by (rule merge_left_filter_matched)
  have "filter (\<lambda>m. snd m \<noteq> None) (merged_data ?matched sd) = merged_data ?matched sd"
    unfolding merged_data_def merge_left_filter_matched by simp
  with m have "filter (\<lambda>m. group_key m \<noteq> None) (merged_data pd sd)
      = filter (\<lambda>m. group_key m \<noteq> None) (merged_data ?matched sd)"
    unfolding group_key_None by simp
  then have "groupby_mean group_key (\<lambda>m. metric (fst m)) (merged_data pd sd)
      = groupby_mean group_key (\<lambda>m. metric (fst m)) (merged_data ?matched sd)"
    by (rule groupby_mean_cong)
  then show ?thesis by (simp add: df_grouped_def)
qed

lemma df_grouped_ids:
  assumes "(k, v) \<in> set (df_grouped pd sd metric)"
  shows "fst k \<in> supplier_row.SupplierID ` set sd"
proof -
  have "k \<in> fst ` set (groupby_mean group_key (\<lambda>m. metric (fst m)) (merged_data pd sd))"
    using assms by (force simp: df_grouped_def sort_values_desc_def)
  then obtain m where m: "m \<in> set (merged_data pd sd)" "group_key m = Some k"
    unfolding set_groupby_mean_keys by auto
  obtain p so where pso: "m = (p, so)" by (cases m)
  with m(2) obtain s where s: "so = Some s"
    "k = (performance_row.SupplierID p, SupplierName s, supplier_row.Category s)"
    by (cases so) (auto simp: group_key_def)
  with m(1) pso have "s \<in> set sd \<and> supplier_row.SupplierID s = performance_row.SupplierID p"
    by (auto simp: merged_data_def set_merge_left)
  with s show ?thesis by (metis fst_conv image_eqI)
qed

subsection \<open>Supplier performance chart: unmatched performance rows\<close>

lemma scores_merged:
  "(performance ''S9'' ''2023-Q4'' 9, None) \<in> set (merged_data scores two_suppliers)"
  by (simp add: merged_data_def merge_left_def scores_def two_suppliers_def supplier_def
      performance_def)

text \<open>
  C9. Joining performance rows to suppliers on SupplierID keeps a performance row whose
  SupplierID is in no supplier row, with missing supplier columns, and the grouping then
  drops it: the grouped per-supplier averages, and with them the ranking chart and its
  average line, are those of the performance table without such rows, and no group of
  the result carries such a SupplierID. The builder is a total function: no error.
\<close>

theorem unmatched_performance_rows_dropped:
  "df_grouped performance_data supplier_data metric =
     df_grouped (filter (\<lambda>p. performance_row.SupplierID p
                              \<in> supplier_row.SupplierID ` set supplier_data) performance_data)
                supplier_data metric
   \<and> create_supplier_chart performance_data supplier_data metric =
     create_supplier_chart (filter (\<lambda>p. performance_row.SupplierID p
                              \<in> supplier_row.SupplierID ` set supplier_data) performance_data)
                supplier_data metric
   \<and> (\<forall>p \<in> set performance_data.
        performance_row.SupplierID p \<notin> supplier_row.SupplierID ` set supplier_data \<longrightarrow>
          (p, None) \<in> set (merged_data performance_data supplier_data)
          \<and> performance_row.SupplierID p
               \<notin> (\<lambda>g. fst (fst g)) ` set (df_grouped performance_data supplier_data metric)
          \<and> performance_row.SupplierID p
               \<notin> (\<lambda>g. fst (fst g))
                    ` set (bars (create_supplier_chart performance_data supplier_data metric)))"
proof -
  have g: "df_grouped performance_data supplier_data metric =
     df_grouped (filter (\<lambda>p. performance_row.SupplierID p
                              \<in> supplier_row.SupplierID ` set supplier_data) performance_data)
                supplier_data metric"
    by (rule df_grouped_matched)
  have c: "create_supplier_chart performance_data supplier_data metric =
     create_supplier_chart (filter (\<lambda>p. performance_row.SupplierID p
                              \<in> supplier_row.SupplierID ` set supplier_data) performance_data)
                supplier_data metric"
    unfolding create_supplier_chart_def using g by simp
  have ids: "fst (fst x) \<in> supplier_row.SupplierID ` set supplier_data"
    if "x \<in> set (df_grouped performance_data supplier_data metric)" for x
    using that df_grouped_ids[of "fst x" "snd x"] by simp
  have bars: "set (bars (create_supplier_chart performance_data supplier_data metric))
      \<subseteq> set (df_grouped performance_data supplier_data metric)"
    by (simp add: create_supplier_chart_def head_def set_take_subset)
  have u: "(p, None) \<in> set (merged_data performance_data supplier_data)
        \<and> performance_row.SupplierID p
             \<notin> (\<lambda>g. fst (fst g)) ` set (df_grouped performance_data supplier_data metric)
        \<and> performance_row.SupplierID p
             \<notin> (\<lambda>g. fst (fst g))
                  ` set (bars (create_supplier_chart performance_data supplier_data metric))"
    if "p \<in> set performance_data"
      "performance_row.SupplierID p \<notin> supplier_row.SupplierID ` set supplier_data" for p
  proof -
    have "(p, None) \<in> set (merged_data performance_data supplier_data)"
      using that by (simp add: merged_data_def set_merge_left)
    moreover have "performance_row.SupplierID p
        \<notin> (\<lambda>g. fst (fst g)) ` set (df_grouped performance_data supplier_data metric)"
      using that(2) ids by auto
    moreover have "performance_row.SupplierID p
        \<notin> (\<lambda>g. fst (fst g))
             ` set (bars (create_supplier_chart performance_data supplier_data metric))"
      using that(2) ids bars by auto
    ultimately show ?thesis by simp
  qed
  from g c u show ?thesis by blast
qed

theorem unmatched_performance_rows_dropped_witness:
  "performance ''S9'' ''2023-Q4'' 9 \<in> set scores
   \<and> ''S9'' \<notin> supplier_row.SupplierID ` set two_suppliers
   \<and> (performance ''S9'' ''2023-Q4'' 9, None) \<in> set (merged_data scores two_suppliers)
   \<and> ''S9'' \<notin> (\<lambda>g. fst (fst g)) ` set (df_grouped scores two_suppliers OverallScore)
   \<and> ''S9'' \<notin> (\<lambda>g. fst (fst g))
                 ` set (bars (create_supplier_chart scores two_suppliers OverallScore))"
proof -
  have h1: "performance ''S9'' ''2023-Q4'' 9 \<in> set scores"
    by (simp add: scores_def)
  have h2: "performance_row.SupplierID (performance ''S9'' ''2023-Q4'' 9)
      \<notin> supplier_row.SupplierID ` set two_suppliers"
    by (simp add: two_suppliers_def supplier_def performance_def)
  have id: "performance_row.SupplierID (performance ''S9'' ''2023-Q4'' 9) = ''S9''"
    by (simp add: performance_def)
  from unmatched_performance_rows_dropped[of scores two_suppliers OverallScore] h1 h2
  have "(performance ''S9'' ''2023-Q4'' 9, None) \<in> set (merged_data scores two_suppliers)
    \<and> performance_row.SupplierID (performance ''S9'' ''2023-Q4'' 9)
         \<notin> (\<lambda>g. fst (fst g)) ` set (df_grouped scores two_suppliers OverallScore)
    \<and> performance_row.SupplierID (performance ''S9'' ''2023-Q4'' 9)
         \<notin> (\<lambda>g. fst (fst g))
              ` set (bars (create_supplier_chart scores two_suppliers OverallScore))"
    by blast
  with h1 h2 show ?thesis unfolding id by simp
qed

subsection \<open>Supplier risk page: suppliers without a latest score\<close>

lemma latest_performance_scores:
  "latest_performance scores = [performance ''S1'' ''2023-Q4'' 8, performance ''S9'' ''2023-Q4'' 9]"
  by (simp add: latest_performance_def latest_quarter_def scores_def performance_def)

text \<open>
  C10. A supplier row whose SupplierID has no performance record of the latest quarter
  comes out of the left merge with a missing OverallScore, and only so; for every score
  range the inclusive range filter drops it, so no row of the filtered risk analysis
  carries its SupplierID.
\<close>

theorem no_latest_score_never_in_range:
  "\<forall>s \<in> set filtered_suppliers.
     supplier_row.SupplierID s
        \<notin> performance_row.SupplierID ` set (latest_performance performance_data) \<longrightarrow>
       (s, None) \<in> set (merged_scores filtered_suppliers performance_data)
       \<and> (\<forall>m \<in> set (merged_scores filtered_suppliers performance_data).
             supplier_row.SupplierID (fst m) = supplier_row.SupplierID s \<longrightarrow> snd m = None)
       \<and> (\<forall>min_score max_score.
             supplier_row.SupplierID s
               \<notin> (\<lambda>m. supplier_row.SupplierID (fst m))
                    ` set (supplier_performance filtered_suppliers performance_data
                             (min_score, max_score)))"
proof (intro ballI impI)
  fix s
  assume s: "s \<in> set filtered_suppliers"
    and no: "supplier_row.SupplierID s
        \<notin> performance_row.SupplierID ` set (latest_performance performance_data)"
  have 1: "(s, None) \<in> set (merged_scores filtered_suppliers performance_data)"
    using s no by (simp add: merged_scores_def set_merge_left)
  have 2: "snd m = None"
    if "m \<in> set (merged_scores filtered_suppliers performance_data)"
      "supplier_row.SupplierID (fst m) = supplier_row.SupplierID s" for m
  proof (cases "snd m")
    case None
    then show ?thesis .
  next
    case (Some p)
    then have "m = (fst m, Some p)" by (cases m) simp
    with that(1) have "p \<in> set (latest_performance performance_data)
        \<and> performance_row.SupplierID p = supplier_row.SupplierID (fst m)"
      unfolding merged_scores_def set_merge_left by auto
    with that(2) no show ?thesis by (metis image_eqI)
  qed
  have 3: "supplier_row.SupplierID s
        \<notin> (\<lambda>m. supplier_row.SupplierID (fst m))
             ` set (supplier_performance filtered_suppliers performance_data
                      (min_score, max_score))" for min_score max_score
  proof
    assume "supplier_row.SupplierID s
        \<in> (\<lambda>m. supplier_row.SupplierID (fst m))
             ` set (supplier_performance filtered_suppliers performance_data
                      (min_score, max_score))"
    then obtain m where m: "m \<in> set (merged_scores filtered_suppliers performance_data)"
        "in_score_range min_score max_score m"
        "supplier_row.SupplierID (fst m) = supplier_row.SupplierID s"
      by (auto simp: supplier_performance_def)
    from 2[OF m(1) m(3)] m(2) show False
      by (simp add: in_score_range_def)
  qed
  from 1 2 3
  show "(s, None) \<in> set (merged_scores filtered_suppliers performance_data)
       \<and> (\<forall>m \<in> set (merged_scores filtered_suppliers performance_data).
             supplier_row.SupplierID (fst m) = supplier_row.SupplierID s \<longrightarrow> snd m = None)
       \<and> (\<forall>min_score max_score.
             supplier_row.SupplierID s
               \<notin> (\<lambda>m. supplier_row.SupplierID (fst m))
                    ` set (supplier_performance filtered_suppliers performance_data
                             (min_score, max_score)))"
    by blast
qed

theorem no_latest_score_never_in_range_witness:
  "supplier ''S2'' ''B'' ''HR'' ''DE'' \<in> set two_suppliers
   \<and> ''S2'' \<notin> performance_row.SupplierID ` set (latest_performance scores)
   \<and> (supplier ''S2'' ''B'' ''HR'' ''DE'', None) \<in> set (merged_scores two_suppliers scores)
   \<and> ''S2'' \<notin> (\<lambda>m. supplier_row.SupplierID (fst m))
                 ` set (supplier_performance two_suppliers scores (1, 10))
   \<and> map (\<lambda>m. supplier_row.SupplierID (fst m)) (supplier_performance two_suppliers scores (1, 10))
       = [''S1'']"
proof -
  have h1: "supplier ''S2'' ''B'' ''HR'' ''DE'' \<in> set two_suppliers"
    by (simp add: two_suppliers_def)
  have id: "supplier_row.SupplierID (supplier ''S2'' ''B'' ''HR'' ''DE'') = ''S2''"
    by (simp add: supplier_def)
  have h2: "supplier_row.SupplierID (supplier ''S2'' ''B'' ''HR'' ''DE'')
      \<notin> performance_row.SupplierID ` set (latest_performance scores)"
    by (simp add: latest_performance_scores performance_def supplier_def)
  from no_latest_score_never_in_range[of two_suppliers scores] h1 h2
  have "(supplier ''S2'' ''B'' ''HR'' ''DE'', None) \<in> set (merged_scores two_suppliers scores)
    \<and> supplier_row.SupplierID (supplier ''S2'' ''B'' ''HR'' ''DE'')
        \<notin> (\<lambda>m. supplier_row.SupplierID (fst m))
             ` set (supplier_performance two_suppliers scores (1, 10))"
    by blast
  moreover have "map (\<lambda>m. supplier_row.SupplierID (fst m))
      (supplier_performance two_suppliers scores (1, 10)) = [''S1'']"
    by (simp add: supplier_performance_def merged_scores_def latest_performance_scores
        merge_left_def two_suppliers_def supplier_def performance_def in_score_range_def)
  ultimately show ?thesis using h1 h2 unfolding id by simp
qed

subsection \<open>Filter controls\<close>

lemma select_map: "select (map p xs) xs = filter p xs"
  by (induction xs) (auto simp: select_def)

lemma alloc_props:
  "snd (alloc h f) = length h" "fst (alloc h f) = h @ [f]" "deref (alloc h f) = f"
  by (simp_all add: alloc_def deref_def)

lemma df_copy_props:
  "snd (df_copy h df) = length h" "fst (df_copy h df) = h @ [h ! df]"
  "deref (df_copy h df) = h ! df"
  by (simp_all add: df_copy_def alloc_props)

lemma df_getitem_props:
  "snd (df_getitem h df cond) = length h"
  "take (length h) (fst (df_getitem h df cond)) = h"
  "length (fst (df_getitem h df cond)) = Suc (length h)"
  "rows (deref (df_getitem h df cond)) = filter cond (rows (h ! df))"
  by (simp_all add: df_getitem_def alloc_props Let_def select_map)

lemma filter_step_rows:
  "rows (deref (filter_step all_label col selected s)) =
     (if selected \<noteq> all_label then filter (\<lambda>r. col r = selected) (rows (deref s))
      else rows (deref s))"
  by (simp add: filter_step_def df_getitem_props) (simp add: deref_def)

lemma filter_step_store:
  "take (length (fst s)) (fst (filter_step all_label col selected s)) = fst s"
  "length (fst s) \<le> length (fst (filter_step all_label col selected s))"
  "snd (filter_step all_label col selected s) = (if selected \<noteq> all_label then length (fst s) else snd s)"
  by (simp_all add: filter_step_def df_getitem_props)

lemma date_step_rows:
  "rows (deref (date_step date_range s)) =
     (if length date_range = 2
      then filter (\<lambda>r. Date r \<ge> date_range ! 0 \<and> Date r \<le> date_range ! 1) (rows (deref s))
      else rows (deref s))"
  by (simp add: date_step_def df_getitem_props) (simp add: deref_def)

lemma date_step_store:
  "take (length (fst s)) (fst (date_step date_range s)) = fst s"
  "length (fst s) \<le> length (fst (date_step date_range s))"
  "snd (date_step date_range s) = (if length date_range = 2 then length (fst s) else snd s)"
  by (simp_all add: date_step_def df_getitem_props)

lemma take_take_eq:
  "take n ys = xs \<Longrightarrow> take m zs = ys \<Longrightarrow> n \<le> m \<Longrightarrow> take n zs = xs"
  by (metis min.absorb1 take_take)

lemma take_nth_eq: "take n ys = xs \<Longrightarrow> a < length xs \<Longrightarrow> ys ! a = xs ! a"
  by (metis length_take min_less_iff_conj nth_take)

lemma df_copy_fresh:
  "take (length h) (fst (df_copy h df)) = h \<and> length h \<le> snd (df_copy h df)
   \<and> snd (df_copy h df) < length (fst (df_copy h df))"
  by (simp add: df_copy_props)

lemma df_getitem_fresh:
  assumes "take (length h) (fst s) = h \<and> length h \<le> snd s \<and> snd s < length (fst s)"
  shows "take (length h) (fst (df_getitem (fst s) (snd s) cond)) = h
     \<and> length h \<le> snd (df_getitem (fst s) (snd s) cond)
     \<and> snd (df_getitem (fst s) (snd s) cond) < length (fst (df_getitem (fst s) (snd s) cond))"
proof -
  have "length h \<le> length (fst s)" using assms by simp
  then have "take (length h) (fst (df_getitem (fst s) (snd s) cond)) = take (length h) (fst s)"
    using take_take_eq[OF refl df_getitem_props(2)[of "fst s" "snd s" cond]] by simp
  then show ?thesis using assms by (simp add: df_getitem_props)
qed

lemma filter_step_fresh:
  assumes "take (length h) (fst s) = h \<and> length h \<le> snd s \<and> snd s < length (fst s)"
  shows "take (length h) (fst (filter_step all_label col selected s)) = h
     \<and> length h \<le> snd (filter_step all_label col selected s)
     \<and> snd (filter_step all_label col selected s) < length (fst (filter_step all_label col selected s))"
  using assms df_getitem_fresh[OF assms] by (simp add: filter_step_def)

lemma date_step_fresh:
  assumes "take (length h) (fst s) = h \<and> length h \<le> snd s \<and> snd s < length (fst s)"
  shows "take (length h) (fst (date_step date_range s)) = h
     \<and> length h \<le> snd (date_step date_range s)
     \<and> snd (date_step date_range s) < length (fst (date_step date_range s))"
  using assms df_getitem_fresh[OF assms] by (simp add: date_step_def)

lemma ci_apply_filters_fresh:
  "take (length h) (fst (ci_apply_filters h spend_data c b d)) = h
   \<and> length h \<le> snd (ci_apply_filters h spend_data c b d)
   \<and> snd (ci_apply_filters h spend_data c b d) < length (fst (ci_apply_filters h spend_data c b d))"
  unfolding ci_apply_filters_def
  by (intro date_step_fresh filter_step_fresh df_copy_fresh)

lemma sr_apply_filters_fresh:
  "take (length h) (fst (sr_apply_filters h supplier_data c k)) = h
   \<and> length h \<le> snd (sr_apply_filters h supplier_data c k)
   \<and> snd (sr_apply_filters h supplier_data c k) < length (fst (sr_apply_filters h supplier_data c k))"
  unfolding sr_apply_filters_def
  by (intro filter_step_fresh df_copy_fresh)

lemma ci_assign_month_old:
  "take (length h) (ci_assign_month (ci_apply_filters h spend_data c b d)) = h"
  using ci_apply_filters_fresh[of h spend_data c b d]
  by (simp add: ci_assign_month_def df_setitem_def)

lemma ci_apply_filters_rows:
  "rows (deref (ci_apply_filters h spend_data c b d)) =
     filter (\<lambda>r. length d = 2 \<longrightarrow> Date r \<ge> d ! 0 \<and> Date r \<le> d ! 1)
       (filter (\<lambda>r. b \<noteq> ''All Business Units'' \<longrightarrow> BusinessUnit r = b)
          (filter (\<lambda>r. c \<noteq> ''All Categories'' \<longrightarrow> spend_row.Category r = c)
             (rows (h ! spend_data))))"
  by (simp add: ci_apply_filters_def date_step_rows filter_step_rows df_copy_props)

lemma sr_apply_filters_rows:
  "rows (deref (sr_apply_filters h supplier_data c k)) =
     filter (\<lambda>r. k \<noteq> ''All Countries'' \<longrightarrow> Country r = k)
       (filter (\<lambda>r. c \<noteq> ''All Categories'' \<longrightarrow> supplier_row.Category r = c)
          (rows (h ! supplier_data)))"
  by (simp add: sr_apply_filters_def filter_step_rows df_copy_props)

lemma filter_step_commute:
  "rows (deref (filter_step l1 c1 v1 (filter_step l2 c2 v2 s)))
     = rows (deref (filter_step l2 c2 v2 (filter_step l1 c1 v1 s)))"
  by (simp add: filter_step_rows conj_commute)

text \<open>
  C3. A select box set to its "All" sentinel leaves the table as it is, row for row; set
  to any other value it yields exactly the rows whose column equals that value, in
  their original order; two select-box filters applied in either order yield the same
  rows. The filtered table of either page is a new object: every DataFrame that existed
  before, the session's table among them, is unchanged by the filters, and stays
  unchanged when the page later assigns the Month column to the filtered table.
\<close>

theorem filters_identity_select_commute:
  "filter_step all_label col all_label s = s
   \<and> (selected \<noteq> all_label \<longrightarrow>
        rows (deref (filter_step all_label col selected s))
          = filter (\<lambda>r. col r = selected) (rows (deref s)))
   \<and> rows (deref (filter_step l1 c1 v1 (filter_step l2 c2 v2 s)))
        = rows (deref (filter_step l2 c2 v2 (filter_step l1 c1 v1 s)))
   \<and> rows (deref (ci_apply_filters h spend_data selected_category selected_bu date_range)) =
        filter (\<lambda>r. length date_range = 2 \<longrightarrow>
                      Date r \<ge> date_range ! 0 \<and> Date r \<le> date_range ! 1)
          (filter (\<lambda>r. selected_bu \<noteq> ''All Business Units'' \<longrightarrow> BusinessUnit r = selected_bu)
             (filter (\<lambda>r. selected_category \<noteq> ''All Categories'' \<longrightarrow>
                             spend_row.Category r = selected_category)
                (rows (h ! spend_data))))
   \<and> rows (deref (sr_apply_filters h' supplier_data selected_category selected_country)) =
        filter (\<lambda>r. selected_country \<noteq> ''All Countries'' \<longrightarrow> Country r = selected_country)
          (filter (\<lambda>r. selected_category \<noteq> ''All Categories'' \<longrightarrow>
                          supplier_row.Category r = selected_category)
             (rows (h' ! supplier_data)))
   \<and> take (length h)
        (fst (ci_apply_filters h spend_data selected_category selected_bu date_range)) = h
   \<and> take (length h)
        (ci_assign_month
           (ci_apply_filters h spend_data selected_category selected_bu date_range)) = h
   \<and> take (length h')
        (fst (sr_apply_filters h' supplier_data selected_category selected_country)) = h'
   \<and> (spend_data < length h \<longrightarrow>
        fst (ci_apply_filters h spend_data selected_category selected_bu date_range) ! spend_data
          = h ! spend_data
        \<and> ci_assign_month
            (ci_apply_filters h spend_data selected_category selected_bu date_range) ! spend_data
          = h ! spend_data)
   \<and> (supplier_data < length h' \<longrightarrow>
        fst (sr_apply_filters h' supplier_data selected_category selected_country) ! supplier_data
          = h' ! supplier_data)"
proof -
  have 1: "filter_step all_label col all_label s = s"
    by (simp add: filter_step_def)
  have 2: "selected \<noteq> all_label \<Longrightarrow>
        rows (deref (filter_step all_label col selected s))
          = filter (\<lambda>r. col r = selected) (rows (deref s))"
    by (simp add: filter_step_rows)
  note 3 = filter_step_commute[of l1 c1 v1 l2 c2 v2 s]
  note 4 = ci_apply_filters_rows[of h spend_data selected_category selected_bu date_range]
  note 5 = sr_apply_filters_rows[of h' supplier_data selected_category selected_country]
  have 6: "take (length h)
        (fst (ci_apply_filters h spend_data selected_category selected_bu date_range)) = h"
    using ci_apply_filters_fresh by blast
  note 7 = ci_assign_month_old[of h spend_data selected_category selected_bu date_range]
  have 8: "take (length h')
        (fst (sr_apply_filters h' supplier_data selected_category selected_country)) = h'"
    using sr_apply_filters_fresh by blast
  have 9: "fst (ci_apply_filters h spend_data selected_category selected_bu date_range) ! spend_data
          = h ! spend_data
        \<and> ci_assign_month
            (ci_apply_filters h spend_data selected_category selected_bu date_range) ! spend_data
          = h ! spend_data" if "spend_data < length h"
    using take_nth_eq[OF 6 that] take_nth_eq[OF 7 that] by simp
  have 10: "fst (sr_apply_filters h' supplier_data selected_category selected_country) ! supplier_data
          = h' ! supplier_data" if "supplier_data < length h'"
    using take_nth_eq[OF 8 that] by simp
  from 1 2 3 4 5 6 7 8 9 10 show ?thesis by blast
qed

theorem filters_identity_select_commute_witness:
  "''IT'' \<noteq> ''All Categories''
   \<and> map Date (rows (deref (filter_step ''All Categories'' spend_row.Category ''IT''
                               (session_spend, 0))))
       = [(2023, 1, 5), (2023, 3, 7), (2023, 4, 8)]
   \<and> (0::nat) < length session_spend
   \<and> fst (ci_apply_filters session_spend 0 ''IT'' ''Ops'' [(2023, 1, 1), (2023, 3, 31)]) ! 0
       = session_spend ! 0
   \<and> ci_assign_month
        (ci_apply_filters session_spend 0 ''IT'' ''Ops'' [(2023, 1, 1), (2023, 3, 31)]) ! 0
       = session_spend ! 0
   \<and> map Date (rows (deref
        (ci_apply_filters session_spend 0 ''IT'' ''Ops'' [(2023, 1, 1), (2023, 3, 31)])))
       = [(2023, 1, 5)]
   \<and> (0::nat) < length session_suppliers
   \<and> fst (sr_apply_filters session_suppliers 0 ''HR'' ''All Countries'') ! 0
       = session_suppliers ! 0
   \<and> map SupplierName (rows (deref (sr_apply_filters session_suppliers 0 ''HR'' ''All Countries'')))
       = [''B'']"
proof -
  note t = filters_identity_select_commute[where all_label = "''All Categories''"
      and col = spend_row.Category and s = "(session_spend, 0)" and selected = "''IT''"
      and h = session_spend and spend_data = 0 and selected_category = "''IT''"
      and selected_bu = "''Ops''" and date_range = "[(2023, 1, 1), (2023, 3, 31)]"]
  note u = filters_identity_select_commute[where h' = session_suppliers and supplier_data = 0
      and selected_category = "''HR''" and selected_country = "''All Countries''"]
  have h1: "''IT'' \<noteq> ''All Categories''" by simp
  have h2: "(0::nat) < length session_spend" by (simp add: session_spend_def)
  have h3: "(0::nat) < length session_suppliers" by (simp add: session_suppliers_def)
  have a: "rows (deref (filter_step ''All Categories'' spend_row.Category ''IT'' (session_spend, 0)))
      = filter (\<lambda>r. spend_row.Category r = ''IT'') (rows (deref (session_spend, 0)))"
    using t h1 by blast
  have a': "map Date (rows (deref (filter_step ''All Categories'' spend_row.Category ''IT''
                               (session_spend, 0))))
       = [(2023, 1, 5), (2023, 3, 7), (2023, 4, 8)]"
    unfolding a by (simp add: deref_def session_spend_def spend_in_def)
  have b: "fst (ci_apply_filters session_spend 0 ''IT'' ''Ops'' [(2023, 1, 1), (2023, 3, 31)]) ! 0
       = session_spend ! 0
    \<and> ci_assign_month
        (ci_apply_filters session_spend 0 ''IT'' ''Ops'' [(2023, 1, 1), (2023, 3, 31)]) ! 0
       = session_spend ! 0"
    using t h2 by blast
  have c: "rows (deref (ci_apply_filters session_spend 0 ''IT'' ''Ops'' [(2023, 1, 1), (2023, 3, 31)]))
      = filter (\<lambda>r. length [(2023::nat, 1::nat, 1::nat), (2023, 3, 31)] = 2 \<longrightarrow>
                      Date r \<ge> [(2023, 1, 1), (2023, 3, 31)] ! 0
                      \<and> Date r \<le> [(2023, 1, 1), (2023, 3, 31)] ! 1)
          (filter (\<lambda>r. ''Ops'' \<noteq> ''All Business Units'' \<longrightarrow> BusinessUnit r = ''Ops'')
             (filter (\<lambda>r. ''IT'' \<noteq> ''All Categories'' \<longrightarrow> spend_row.Category r = ''IT'')
                (rows (session_spend ! 0))))"
    using t by blast
  have c': "map Date (rows (deref
        (ci_apply_filters session_spend 0 ''IT'' ''Ops'' [(2023, 1, 1), (2023, 3, 31)])))
       = [(2023, 1, 5)]"
    unfolding c by (simp add: session_spend_def spend_in_def)
  have d: "fst (sr_apply_filters session_suppliers 0 ''HR'' ''All Countries'') ! 0
       = session_suppliers ! 0"
    using u h3 by blast
  have e: "rows (deref (sr_apply_filters session_suppliers 0 ''HR'' ''All Countries'')) =
        filter (\<lambda>r. ''All Countries'' \<noteq> ''All Countries'' \<longrightarrow> Country r = ''All Countries'')
          (filter (\<lambda>r. ''HR'' \<noteq> ''All Categories'' \<longrightarrow> supplier_row.Category r = ''HR'')
             (rows (session_suppliers ! 0)))"
    using u by blast
  have e': "map SupplierName (rows (deref (sr_apply_filters session_suppliers 0 ''HR'' ''All Countries'')))
       = [''B'']"
    unfolding e by (simp add: session_suppliers_def two_suppliers_def supplier_def)
  from h1 a' h2 b c' h3 d e' show ?thesis by blast
qed

subsection \<open>Heatmap builder\<close>

lemma sort_remdups_set:
  "set xs = set ys \<Longrightarrow> sort (remdups xs) = sort (remdups ys)"
  by (metis sorted_list_of_set_sort_remdups)

lemma map_enumerate_cong:
  "(\<And>i. i < length xs \<Longrightarrow> f i (xs ! i) = g (xs ! i)) \<Longrightarrow>
     map (\<lambda>(i, a). f i a) (enumerate 0 xs) = map g xs"
  by (auto simp: list_eq_iff_nth_eq nth_enumerate_eq)

lemma map_of_groupby_sum:
  "(case map_of (groupby_sum key val df) k of None \<Rightarrow> 0 | Some v \<Rightarrow> v)
     = sum_list (map val (filter (\<lambda>r. key r = k) df))"
proof (cases "k \<in> key ` set df")
  case True
  then show ?thesis
    by (simp add: groupby_sum_def map_of_map_restrict)
next
  case False
  then have "filter (\<lambda>r. key r = k) df = []"
    by (auto simp: filter_empty_conv)
  with False show ?thesis
    by (simp add: groupby_sum_def map_of_map_restrict restrict_map_def)
qed

lemma df_pivot_eq:
  "df_pivot x_dim y_dim value data =
     (sort (remdups (map y_dim data)), sort (remdups (map x_dim data)),
      map (\<lambda>row. map (\<lambda>col. spec_cell x_dim y_dim value data row col)
                      (sort (remdups (map x_dim data))))
          (sort (remdups (map y_dim data))))"
proof -
  let ?g = "groupby_sum (\<lambda>r. (y_dim r, x_dim r)) value data"
  have i: "sort (remdups (map (\<lambda>g. fst (fst g)) ?g)) = sort (remdups (map y_dim data))"
    by (rule sort_remdups_set) (force simp: groupby_sum_def image_iff)
  have c: "sort (remdups (map (\<lambda>g. snd (fst g)) ?g)) = sort (remdups (map x_dim data))"
    by (rule sort_remdups_set) (force simp: groupby_sum_def image_iff)
  have cell: "(case map_of ?g (row, col) of None \<Rightarrow> 0 | Some v \<Rightarrow> v)
      = spec_cell x_dim y_dim value data row col" for row col
    by (simp add: map_of_groupby_sum spec_cell_def)
  show ?thesis
    unfolding df_pivot_def Let_def i c cell by simp
qed

lemma values_max_Max:
  assumes "concat vals \<noteq> []"
  shows "values_max vals = Some (Max (set (concat vals)))"
proof (cases "concat vals")
  case Nil
  then show ?thesis using assms by simp
next
  case (Cons v vs)
  have "fold max vs v = Max (set (v # vs))" by (rule Max.set_eq_fold[symmetric])
  with Cons show ?thesis by (simp add: values_max_def)
qed

lemma remdups_card_ge2:
  "2 \<le> card (f ` set data) \<longleftrightarrow> \<not> length (remdups (map f data)) < 2"
  by (simp add: length_remdups_card_conv not_less)

lemma heatmap_grid:
  assumes "2 \<le> card (x_dim ` set data)" "2 \<le> card (y_dim ` set data)"
  shows "create_risk_heatmap fmt_0f fmt_1f data x_dim y_dim value =
    Some (Heatmap
      \<lparr>heat_z = map (\<lambda>row. map (\<lambda>col. spec_cell x_dim y_dim value data row col)
                      (sort (remdups (map x_dim data))))
          (sort (remdups (map y_dim data))),
       heat_x = sort (remdups (map x_dim data)),
       heat_y = sort (remdups (map y_dim data)),
       annotations =
         concat (map (\<lambda>row. concat (map (\<lambda>col.
             if spec_cell x_dim y_dim value data row col = 0 then []
             else [cell_annotation fmt_0f fmt_1f
                     (Max ((\<lambda>(row, col). spec_cell x_dim y_dim value data row col)
                            ` (y_dim ` set data \<times> x_dim ` set data)))
                     col row (spec_cell x_dim y_dim value data row col)])
           (sort (remdups (map x_dim data)))))
         (sort (remdups (map y_dim data))))\<rparr>)"
proof -
  let ?cols = "sort (remdups (map x_dim data))"
  let ?idx = "sort (remdups (map y_dim data))"
  let ?cell = "spec_cell x_dim y_dim value data"
  let ?vals = "map (\<lambda>row. map (\<lambda>col. ?cell row col) ?cols) ?idx"
  have ne: "data \<noteq> []" using assms(1) by auto
  have lc: "2 \<le> length ?cols" and li: "2 \<le> length ?idx"
    using assms by (simp_all add: length_remdups_card_conv)
  have setv: "set (concat ?vals) = (\<lambda>(row, col). ?cell row col) ` (y_dim ` set data \<times> x_dim ` set data)"
    by (auto simp: image_iff) 
  have "concat ?vals \<noteq> []" using lc li
    by (cases ?idx; cases ?cols) auto
  then have mx: "values_max ?vals = Some (Max ((\<lambda>(row, col). ?cell row col) ` (y_dim ` set data \<times> x_dim ` set data)))"
    using values_max_Max setv by metis
  have inner: "map (\<lambda>(j, col). if ?vals ! i ! j = 0 then []
                         else [cell_annotation fmt_0f fmt_1f M col (?idx ! i) (?vals ! i ! j)])
                       (enumerate 0 ?cols)
      = map (\<lambda>col. if ?cell (?idx ! i) col = 0 then []
                         else [cell_annotation fmt_0f fmt_1f M col (?idx ! i) (?cell (?idx ! i) col)]) ?cols"
    if "i < length ?idx" for i M
    using that
    by (intro map_enumerate_cong[where f = "\<lambda>j col. if ?vals ! i ! j = 0 then []
                         else [cell_annotation fmt_0f fmt_1f M col (?idx ! i) (?vals ! i ! j)]"]) simp
  have outer: "map (\<lambda>(i, row). concat (map (\<lambda>(j, col). if ?vals ! i ! j = 0 then []
                         else [cell_annotation fmt_0f fmt_1f M col row (?vals ! i ! j)])
                       (enumerate 0 ?cols))) (enumerate 0 ?idx)
      = map (\<lambda>row. concat (map (\<lambda>col. if ?cell row col = 0 then []
                         else [cell_annotation fmt_0f fmt_1f M col row (?cell row col)]) ?cols)) ?idx" for M
    by (intro map_enumerate_cong[where f = "\<lambda>i row. concat (map (\<lambda>(j, col). if ?vals ! i ! j = 0 then []
                         else [cell_annotation fmt_0f fmt_1f M col row (?vals ! i ! j)])
                       (enumerate 0 ?cols))"]) (simp only: inner)
  show ?thesis
    using ne assms
    by (simp add: create_risk_heatmap_def remdups_card_ge2 df_pivot_eq mx outer del: set_concat)
qed

lemma heatmap_empty_state:
  assumes "card (x_dim ` set data) < 2 \<or> card (y_dim ` set data) < 2"
  shows "create_risk_heatmap fmt_0f fmt_1f data x_dim y_dim value =
    Some (Empty_state ''Not enough data to generate heatmap.<br>Try adjusting your filters.'')"
  using assms by (auto simp: create_risk_heatmap_def length_remdups_card_conv)

text \<open>
  C8. The builder returns the empty-state figure with the "not enough data" message
  whenever either dimension has fewer than two distinct values, in particular with
  exactly one distinct x-value. Otherwise it returns a grid over the sorted distinct
  labels whose cell is the sum of the matching rows' values, 0 where no row matches, and
  one annotation per non-zero cell. A cell's label ends in M for a value of at least
  1,000,000, in K for a value of at least 1,000 below that, and has no suffix below
  1,000; its text colour is white exactly when the value exceeds half the largest cell
  of the grid, black otherwise.
\<close>

theorem heatmap_empty_state_grid_labels:
  "((card (x_dim ` set data) < 2 \<or> card (y_dim ` set data) < 2) \<longrightarrow>
      create_risk_heatmap fmt_0f fmt_1f data x_dim y_dim amount =
        Some (Empty_state ''Not enough data to generate heatmap.<br>Try adjusting your filters.''))
   \<and> (card (x_dim ` set data) = 1 \<longrightarrow>
      create_risk_heatmap fmt_0f fmt_1f data x_dim y_dim amount =
        Some (Empty_state ''Not enough data to generate heatmap.<br>Try adjusting your filters.''))
   \<and> (2 \<le> card (x_dim ` set data) \<and> 2 \<le> card (y_dim ` set data) \<longrightarrow>
      create_risk_heatmap fmt_0f fmt_1f data x_dim y_dim amount =
        Some (Heatmap
          \<lparr>heat_z = map (\<lambda>row. map (\<lambda>col. spec_cell x_dim y_dim amount data row col)
                          (sort (remdups (map x_dim data))))
              (sort (remdups (map y_dim data))),
           heat_x = sort (remdups (map x_dim data)),
           heat_y = sort (remdups (map y_dim data)),
           annotations =
             concat (map (\<lambda>row. concat (map (\<lambda>col.
                 if spec_cell x_dim y_dim amount data row col = 0 then []
                 else [cell_annotation fmt_0f fmt_1f
                         (Max ((\<lambda>(row, col). spec_cell x_dim y_dim amount data row col)
                                ` (y_dim ` set data \<times> x_dim ` set data)))
                         col row (spec_cell x_dim y_dim amount data row col)])
               (sort (remdups (map x_dim data)))))
             (sort (remdups (map y_dim data))))\<rparr>))
   \<and> (\<not> (\<exists>r \<in> set data. y_dim r = row \<and> x_dim r = col) \<longrightarrow>
        spec_cell x_dim y_dim amount data row col = 0)
   \<and> (val \<ge> 1000000 \<longrightarrow>
        cell_text fmt_0f fmt_1f val = ''$'' @ fmt_1f (val / 1000000) @ ''M'')
   \<and> (1000 \<le> val \<and> val < 1000000 \<longrightarrow>
        cell_text fmt_0f fmt_1f val = ''$'' @ fmt_1f (val / 1000) @ ''K'')
   \<and> (val < 1000 \<longrightarrow> cell_text fmt_0f fmt_1f val = ''$'' @ fmt_0f val)
   \<and> ann_text (cell_annotation fmt_0f fmt_1f max_value col row val) = cell_text fmt_0f fmt_1f val
   \<and> (font_color (cell_annotation fmt_0f fmt_1f max_value col row val) = ''white''
        \<longleftrightarrow> val > max_value / 2)
   \<and> (font_color (cell_annotation fmt_0f fmt_1f max_value col row val) = ''black''
        \<longleftrightarrow> \<not> val > max_value / 2)"
proof -
  have e1: "card (x_dim ` set data) = 1 \<Longrightarrow> card (x_dim ` set data) < 2" by simp
  have cell0: "spec_cell x_dim y_dim amount data row col = 0"
    if "\<not> (\<exists>r \<in> set data. y_dim r = row \<and> x_dim r = col)"
  proof -
    have "filter (\<lambda>r. y_dim r = row \<and> x_dim r = col) data = []"
      using that by (auto simp: filter_empty_conv)
    then show ?thesis by (simp add: spec_cell_def)
  qed
  have suffix: "(val \<ge> 1000000 \<longrightarrow>
        cell_text fmt_0f fmt_1f val = ''$'' @ fmt_1f (val / 1000000) @ ''M'')
   \<and> (1000 \<le> val \<and> val < 1000000 \<longrightarrow>
        cell_text fmt_0f fmt_1f val = ''$'' @ fmt_1f (val / 1000) @ ''K'')
   \<and> (val < 1000 \<longrightarrow> cell_text fmt_0f fmt_1f val = ''$'' @ fmt_0f val)"
    by (simp add: cell_text_def)
  have colour: "ann_text (cell_annotation fmt_0f fmt_1f max_value col row val)
        = cell_text fmt_0f fmt_1f val
   \<and> (font_color (cell_annotation fmt_0f fmt_1f max_value col row val) = ''white''
        \<longleftrightarrow> val > max_value / 2)
   \<and> (font_color (cell_annotation fmt_0f fmt_1f max_value col row val) = ''black''
        \<longleftrightarrow> \<not> val > max_value / 2)"
    by (simp add: cell_annotation_def)
  show ?thesis
    using heatmap_empty_state[of x_dim data y_dim fmt_0f fmt_1f amount] e1
      heatmap_grid[of x_dim data y_dim fmt_0f fmt_1f amount] cell0 suffix colour
    by blast
qed

theorem heatmap_empty_state_grid_labels_witness:
  "card (spend_row.Category ` set one_category) = 1
   \<and> create_risk_heatmap (\<lambda>v. ''0'') (\<lambda>v. ''0.0'') one_category spend_row.Category BusinessUnit Amount
       = Some (Empty_state ''Not enough data to generate heatmap.<br>Try adjusting your filters.'')
   \<and> 2 \<le> card (spend_row.Category ` set heat_rows)
   \<and> 2 \<le> card (BusinessUnit ` set heat_rows)
   \<and> create_risk_heatmap (\<lambda>v. ''0'') (\<lambda>v. ''0.0'') heat_rows spend_row.Category BusinessUnit Amount
       = Some (Heatmap
           \<lparr>heat_z = [[2500, 1500000], [0, 40]],
            heat_x = [''HR'', ''IT''],
            heat_y = [''Ops'', ''Sales''],
            annotations =
              [\<lparr>ann_x = ''HR'', ann_y = ''Ops'', ann_text = ''$0.0K'', font_color = ''black''\<rparr>,
               \<lparr>ann_x = ''IT'', ann_y = ''Ops'', ann_text = ''$0.0M'', font_color = ''white''\<rparr>,
               \<lparr>ann_x = ''IT'', ann_y = ''Sales'', ann_text = ''$0'', font_color = ''black''\<rparr>]\<rparr>)
   \<and> \<not> (\<exists>r \<in> set heat_rows. BusinessUnit r = ''Sales'' \<and> spend_row.Category r = ''HR'')
   \<and> spec_cell spend_row.Category BusinessUnit Amount heat_rows ''Sales'' ''HR'' = 0
   \<and> (1500000::rat) \<ge> 1000000
   \<and> cell_text (\<lambda>v. ''0'') (\<lambda>v. ''0.0'') 1500000 = ''$0.0M''
   \<and> (1000::rat) \<le> 2500 \<and> (2500::rat) < 1000000
   \<and> cell_text (\<lambda>v. ''0'') (\<lambda>v. ''0.0'') 2500 = ''$0.0K''
   \<and> (40::rat) < 1000
   \<and> cell_text (\<lambda>v. ''0'') (\<lambda>v. ''0.0'') 40 = ''$0''"
proof -
  note t = heatmap_empty_state_grid_labels[where fmt_0f = "\<lambda>v. ''0''" and fmt_1f = "\<lambda>v. ''0.0''"
      and x_dim = spend_row.Category and y_dim = BusinessUnit and amount = Amount]
  have cats: "sort (remdups (map spend_row.Category heat_rows)) = [''HR'', ''IT'']"
    by (simp add: heat_rows_def spend_of_def)
  have bus: "sort (remdups (map BusinessUnit heat_rows)) = [''Ops'', ''Sales'']"
    by (simp add: heat_rows_def spend_of_def)
  have cells: "spec_cell spend_row.Category BusinessUnit Amount heat_rows ''Ops'' ''HR'' = 2500"
    "spec_cell spend_row.Category BusinessUnit Amount heat_rows ''Ops'' ''IT'' = 1500000"
    "spec_cell spend_row.Category BusinessUnit Amount heat_rows ''Sales'' ''HR'' = 0"
    "spec_cell spend_row.Category BusinessUnit Amount heat_rows ''Sales'' ''IT'' = 40"
    by (simp_all add: spec_cell_def heat_rows_def spend_of_def)
  have sets: "BusinessUnit ` set heat_rows = {''Ops'', ''Sales''}"
    "spend_row.Category ` set heat_rows = {''HR'', ''IT''}"
    by (auto simp: heat_rows_def spend_of_def)
  have h1: "card (spend_row.Category ` set one_category) = 1"
    by (simp add: one_category_def spend_of_def)
  have h2: "2 \<le> card (spend_row.Category ` set heat_rows) \<and> 2 \<le> card (BusinessUnit ` set heat_rows)"
    by (simp add: sets)
  have h3: "\<not> (\<exists>r \<in> set heat_rows. BusinessUnit r = ''Sales'' \<and> spend_row.Category r = ''HR'')"
    by (simp add: heat_rows_def spend_of_def)
  have mx: "Max ((\<lambda>(row, col). spec_cell spend_row.Category BusinessUnit Amount heat_rows row col)
                                ` (BusinessUnit ` set heat_rows \<times> spend_row.Category ` set heat_rows))
      = 1500000"
    by (simp add: sets cells)
  have e: "create_risk_heatmap (\<lambda>v. ''0'') (\<lambda>v. ''0.0'') one_category spend_row.Category BusinessUnit Amount
       = Some (Empty_state ''Not enough data to generate heatmap.<br>Try adjusting your filters.'')"
    using t[where data = one_category and row = "''Ops''" and col = "''IT''" and val = 0
        and max_value = 0] h1 by blast
  have g: "create_risk_heatmap (\<lambda>v. ''0'') (\<lambda>v. ''0.0'') heat_rows spend_row.Category BusinessUnit Amount
       = Some (Heatmap
           \<lparr>heat_z = [[2500, 1500000], [0, 40]],
            heat_x = [''HR'', ''IT''],
            heat_y = [''Ops'', ''Sales''],
            annotations =
              [\<lparr>ann_x = ''HR'', ann_y = ''Ops'', ann_text = ''$0.0K'', font_color = ''black''\<rparr>,
               \<lparr>ann_x = ''IT'', ann_y = ''Ops'', ann_text = ''$0.0M'', font_color = ''white''\<rparr>,
               \<lparr>ann_x = ''IT'', ann_y = ''Sales'', ann_text = ''$0'', font_color = ''black''\<rparr>]\<rparr>)"
  proof -
    have "create_risk_heatmap (\<lambda>v. ''0'') (\<lambda>v. ''0.0'') heat_rows spend_row.Category BusinessUnit Amount
      = Some (Heatmap
          \<lparr>heat_z = map (\<lambda>row. map (\<lambda>col. spec_cell spend_row.Category BusinessUnit Amount heat_rows row col)
                          (sort (remdups (map spend_row.Category heat_rows))))
              (sort (remdups (map BusinessUnit heat_rows))),
           heat_x = sort (remdups (map spend_row.Category heat_rows)),
           heat_y = sort (remdups (map BusinessUnit heat_rows)),
           annotations =
             concat (map (\<lambda>row. concat (map (\<lambda>col.
                 if spec_cell spend_row.Category BusinessUnit Amount heat_rows row col = 0 then []
                 else [cell_annotation (\<lambda>v. ''0'') (\<lambda>v. ''0.0'')
                         (Max ((\<lambda>(row, col). spec_cell spend_row.Category BusinessUnit Amount heat_rows row col)
                                ` (BusinessUnit ` set heat_rows \<times> spend_row.Category ` set heat_rows)))
                         col row (spec_cell spend_row.Category BusinessUnit Amount heat_rows row col)])
               (sort (remdups (map spend_row.Category heat_rows)))))
             (sort (remdups (map BusinessUnit heat_rows))))\<rparr>)"
      using t[where data = heat_rows and row = "''Ops''" and col = "''IT''" and val = 0
        and max_value = 0] h2 by blast
    then show ?thesis
      unfolding mx cats bus by (simp add: cells cell_annotation_def cell_text_def)
  qed
  have c0: "spec_cell spend_row.Category BusinessUnit Amount heat_rows ''Sales'' ''HR'' = 0"
    using t[where data = heat_rows and row = "''Sales''" and col = "''HR''" and val = 0
        and max_value = 0] h3 by blast
  have v1: "(1500000::rat) \<ge> 1000000" by simp
  have v2: "(1000::rat) \<le> 2500 \<and> (2500::rat) < 1000000" by simp
  have v3: "(40::rat) < 1000" by simp
  have m: "cell_text (\<lambda>v. ''0'') (\<lambda>v. ''0.0'') 1500000 = ''$'' @ ''0.0'' @ ''M''"
    using t[where val = 1500000 and data = heat_rows and row = "''Ops''" and col = "''IT''"
        and max_value = 1500000] v1 by blast
  have k: "cell_text (\<lambda>v. ''0'') (\<lambda>v. ''0.0'') 2500 = ''$'' @ ''0.0'' @ ''K''"
    using t[where val = 2500 and data = heat_rows and row = "''Ops''" and col = "''HR''"
        and max_value = 1500000] v2 by blast
  have p: "cell_text (\<lambda>v. ''0'') (\<lambda>v. ''0.0'') 40 = ''$'' @ ''0''"
    using t[where val = 40 and data = heat_rows and row = "''Sales''" and col = "''IT''"
        and max_value = 1500000] v3 by blast
  from h1 e h2 g h3 c0 m k p show ?thesis by simp
qed

subsection \<open>Validation of uploads\<close>

lemma missing_columns_empty:
  "missing_columns required data = [] \<longleftrightarrow> set required \<subseteq> set (columns data)"
  by (auto simp: missing_columns_def filter_empty_conv)


lemma find_column:
  assumes "n \<in> set (columns data)"
  obtains c where "find (\<lambda>c. col_name c = n) data = Some c"
  using assms by (cases "find (\<lambda>c. col_name c = n) data") (auto simp: find_None_iff columns_def)

lemma isnull_sum_pos: "isnull_sum c > 0 \<longleftrightarrow> Null \<in> set (col_values c)"
  by (auto simp: isnull_sum_def filter_empty_conv)

lemma validate_loaded_spend:
  assumes "missing_columns (required_columns ''Spend Data'') data = []"
  shows "validate_loaded data ''Spend Data'' =
     (if \<not> amount_is_numeric data
      then Inr (False, ''Amount column must contain numeric values'', None)
      else if \<not> supplier_has_no_null data
      then Inr (False, ''Found '' @ str_nat (case getitem data ''Supplier'' of Inr c \<Rightarrow> isnull_sum c | Inl e \<Rightarrow> 0)
                  @ '' rows with missing supplier information'', None)
      else Inr (True, ''Data validated successfully'', Some data))"
proof -
  have sub: "set (required_columns ''Spend Data'') \<subseteq> set (columns data)"
    using assms by (simp add: missing_columns_empty)
  then have "''Amount'' \<in> set (columns data)" "''Supplier'' \<in> set (columns data)"
    by (simp_all add: required_columns_def)
  then obtain a s where a: "find (\<lambda>c. col_name c = ''Amount'') data = Some a"
    and s: "find (\<lambda>c. col_name c = ''Supplier'') data = Some s"
    by (metis find_column)
  have m: "missing_columns [''Supplier'', ''Category'', ''SubCategory'', ''BusinessUnit'',
                            ''Date'', ''Amount''] data = []"
    using assms by (simp add: required_columns_def)
  show ?thesis
    unfolding validate_loaded_def
    by (simp only: m if_True if_False refl simp_thms)
       (simp add: getitem_def a s amount_is_numeric_def supplier_has_no_null_def isnull_sum_pos)
qed

lemma validate_loaded_missing:
  assumes "missing_columns (required_columns data_type) data \<noteq> []"
  shows "validate_loaded data data_type =
     Inr (False, ''Missing required columns: '' @ join '', ''
            (missing_columns (required_columns data_type) data), None)"
proof -
  consider "data_type = ''Spend Data''" | "data_type = ''Supplier Master Data''"
    | "data_type = ''Contract Data''" | "data_type = ''Performance Data''"
    | "data_type \<noteq> ''Spend Data''" "data_type \<noteq> ''Supplier Master Data''"
      "data_type \<noteq> ''Contract Data''" "data_type \<noteq> ''Performance Data''"
    by blast
  then show ?thesis
  proof cases
    case 1
    with assms show ?thesis
      unfolding validate_loaded_def required_columns_def by simp
  next
    case 2
    with assms show ?thesis
      unfolding validate_loaded_def required_columns_def by simp
  next
    case 3
    with assms show ?thesis
      unfolding validate_loaded_def required_columns_def by simp
  next
    case 4
    with assms show ?thesis
      unfolding validate_loaded_def required_columns_def by simp
  next
    case 5
    with assms show ?thesis
      by (simp add: required_columns_def missing_columns_def)
  qed
qed

lemma validate_loaded_other:
  assumes "missing_columns (required_columns data_type) data = []" "data_type \<noteq> ''Spend Data''"
  shows "validate_loaded data data_type = Inr (True, ''Data validated successfully'', Some data)"
proof -
  consider "data_type = ''Supplier Master Data''"
    | "data_type = ''Contract Data''" | "data_type = ''Performance Data''"
    | "data_type \<noteq> ''Supplier Master Data''"
      "data_type \<noteq> ''Contract Data''" "data_type \<noteq> ''Performance Data''"
    by blast
  then show ?thesis
  proof cases
    case 1
    with assms show ?thesis
      unfolding validate_loaded_def required_columns_def by simp
  next
    case 2
    with assms show ?thesis
      unfolding validate_loaded_def required_columns_def by simp
  next
    case 3
    with assms show ?thesis
      unfolding validate_loaded_def required_columns_def by simp
  next
    case 4
    with assms show ?thesis
      unfolding validate_loaded_def by simp
  qed
qed

lemma validate_data_parsed:
  assumes "parsed read_csv read_excel file data"
  shows "validate_data read_csv read_excel file data_type =
     (case validate_loaded data data_type of
        Inl e \<Rightarrow> (False, ''Error during validation: '' @ e, None)
      | Inr result \<Rightarrow> result)"
  using assms
  by (auto simp: parsed_def validate_data_def validate_body_def load_data_def)

lemma validate_data_accepts:
  assumes "parsed read_csv read_excel file data"
  shows "fst (validate_data read_csv read_excel file data_type) \<longleftrightarrow>
      set (required_columns data_type) \<subseteq> set (columns data)
      \<and> (data_type = ''Spend Data'' \<longrightarrow> amount_is_numeric data \<and> supplier_has_no_null data)"
    and "fst (validate_data read_csv read_excel file data_type) \<Longrightarrow>
      validate_data read_csv read_excel file data_type
        = (True, ''Data validated successfully'', Some data)"
proof -
  note v = validate_data_parsed[OF assms, of data_type]
  have both: "(fst (validate_data read_csv read_excel file data_type) \<longleftrightarrow>
      set (required_columns data_type) \<subseteq> set (columns data)
      \<and> (data_type = ''Spend Data'' \<longrightarrow> amount_is_numeric data \<and> supplier_has_no_null data))
    \<and> (fst (validate_data read_csv read_excel file data_type) \<longrightarrow>
      validate_data read_csv read_excel file data_type
        = (True, ''Data validated successfully'', Some data))"
  proof (cases "missing_columns (required_columns data_type) data = []")
    case False
    then show ?thesis
      unfolding v by (simp add: validate_loaded_missing missing_columns_empty)
  next
    case True
    note m = this
    show ?thesis
    proof (cases "data_type = ''Spend Data''")
      case True
      with m show ?thesis
        unfolding v by (simp add: validate_loaded_spend missing_columns_empty[symmetric])
    next
      case False
      with m show ?thesis
        unfolding v by (simp add: validate_loaded_other missing_columns_empty[symmetric])
    qed
  qed
  from both show "fst (validate_data read_csv read_excel file data_type) \<longleftrightarrow>
      set (required_columns data_type) \<subseteq> set (columns data)
      \<and> (data_type = ''Spend Data'' \<longrightarrow> amount_is_numeric data \<and> supplier_has_no_null data)"
    by blast
  from both show "fst (validate_data read_csv read_excel file data_type) \<Longrightarrow>
      validate_data read_csv read_excel file data_type
        = (True, ''Data validated successfully'', Some data)"
    by blast
qed




lemma no_amount_upload_missing:
  "missing_columns (required_columns ''Spend Data'') no_amount_upload = [''SubCategory'', ''Amount'']"
  by (simp add: required_columns_def missing_columns_def columns_def no_amount_upload_def
      text_col_def)

lemma csv_file_parsed: "parsed (\<lambda>f. Inr data) (\<lambda>f. Inl ''unused'') csv_file data"
  by (simp add: parsed_def endswith_def csv_file_def)


subsection \<open>Failed validation and the data store\<close>

lemma validate_data_unsupported:
  assumes "\<not> endswith (name file) ''.csv''" "\<not> endswith (name file) ''.xlsx''"
  shows "validate_data read_csv read_excel file data_type =
      (False, ''Unsupported file type. Please upload a CSV or Excel file.'', None)"
  using assms by (simp add: validate_data_def validate_body_def)

lemma validate_data_parse_error:
  assumes "endswith (name file) ''.csv'' \<and> read_csv file = Inl e
     \<or> \<not> endswith (name file) ''.csv'' \<and> endswith (name file) ''.xlsx'' \<and> read_excel file = Inl e"
  shows "validate_data read_csv read_excel file data_type =
      (False, ''Error during validation: '' @ e, None)"
  using assms by (auto simp: validate_data_def validate_body_def load_data_def)

lemma upload_invalid:
  assumes "data_type \<in> fst ` set data_type_map"
    and "\<not> fst (validate_data read_csv read_excel file data_type)"
  shows "upload read_csv read_excel session (Some file) data_type =
      Inr (session, Some (Error (fst (snd (validate_data read_csv read_excel file data_type)))))"
proof -
  obtain state_var where "map_of data_type_map data_type = Some state_var"
    using assms(1) by (metis image_iff map_of_eq_None_iff not_Some_eq)
  moreover obtain is_valid message d
    where "validate_data read_csv read_excel file data_type = (is_valid, message, d)"
    by (cases "validate_data read_csv read_excel file data_type")
  ultimately show ?thesis
    using assms(2) by (simp add: upload_def)
qed

lemma upload_returns:
  assumes "data_type \<in> fst ` set data_type_map"
  shows "\<exists>r. upload read_csv read_excel session uploaded data_type = Inr r"
proof -
  obtain state_var where "map_of data_type_map data_type = Some state_var"
    using assms(1) by (metis image_iff map_of_eq_None_iff not_Some_eq)
  then show ?thesis
    by (simp add: upload_def split: prod.splits option.splits)
qed

text \<open>
  C6. For each data type the select box offers, the upload handler returns normally, and
  whenever validation fails it returns the session state it was given: the table held
  before stays in place. Validation fails, with a message and no exception, for an
  unsupported extension, for a parsing exception (as for any exception raised in the
  body), for a missing required column, for a non-numeric Amount and for a missing
  Supplier cell.
\<close>

theorem failed_validation_keeps_store:
  "(data_type \<in> fst ` set data_type_map \<longrightarrow>
      (\<exists>r. upload read_csv read_excel session uploaded data_type = Inr r)
      \<and> (\<not> fst (validate_data read_csv read_excel file data_type) \<longrightarrow>
           upload read_csv read_excel session (Some file) data_type =
             Inr (session,
                  Some (Error (fst (snd (validate_data read_csv read_excel file data_type)))))))
   \<and> (validate_body read_csv read_excel file data_type = Inl e \<longrightarrow>
        validate_data read_csv read_excel file data_type =
          (False, ''Error during validation: '' @ e, None))
   \<and> (\<not> endswith (name file) ''.csv'' \<and> \<not> endswith (name file) ''.xlsx'' \<longrightarrow>
        validate_data read_csv read_excel file data_type =
          (False, ''Unsupported file type. Please upload a CSV or Excel file.'', None))
   \<and> (endswith (name file) ''.csv'' \<and> read_csv file = Inl e
        \<or> \<not> endswith (name file) ''.csv'' \<and> endswith (name file) ''.xlsx''
           \<and> read_excel file = Inl e \<longrightarrow>
        validate_data read_csv read_excel file data_type =
          (False, ''Error during validation: '' @ e, None))
   \<and> (parsed read_csv read_excel file data
        \<and> \<not> (set (required_columns data_type) \<subseteq> set (columns data)
              \<and> (data_type = ''Spend Data'' \<longrightarrow>
                    amount_is_numeric data \<and> supplier_has_no_null data)) \<longrightarrow>
        \<not> fst (validate_data read_csv read_excel file data_type))"
  using upload_returns[of data_type read_csv read_excel "session" uploaded]
    upload_invalid[of data_type read_csv read_excel "file" "session"]
    validate_data_unsupported[of "file" read_csv read_excel data_type]
    validate_data_parse_error[of "file" read_csv e read_excel data_type]
    validate_data_accepts(1)[of read_csv read_excel "file" data data_type]
  by (auto simp: validate_data_def)

theorem failed_validation_keeps_store_witness:
  "''Spend Data'' \<in> fst ` set data_type_map
   \<and> \<not> endswith (name pdf_file) ''.csv'' \<and> \<not> endswith (name pdf_file) ''.xlsx''
   \<and> upload (\<lambda>f. Inr spend_upload) (\<lambda>f. Inl ''unused'') session0 (Some pdf_file) ''Spend Data''
       = Inr (session0,
              Some (Error ''Unsupported file type. Please upload a CSV or Excel file.''))
   \<and> endswith (name csv_file) ''.csv''
   \<and> upload (\<lambda>f. Inl ''ParserError'') (\<lambda>f. Inl ''unused'') session0 (Some csv_file) ''Spend Data''
       = Inr (session0, Some (Error ''Error during validation: ParserError''))
   \<and> parsed (\<lambda>f. Inr no_amount_upload) (\<lambda>f. Inl ''unused'') csv_file no_amount_upload
   \<and> \<not> set (required_columns ''Spend Data'') \<subseteq> set (columns no_amount_upload)
   \<and> fst (the_inr (upload (\<lambda>f. Inr no_amount_upload) (\<lambda>f. Inl ''unused'') session0
                      (Some csv_file) ''Spend Data'')) = session0"
proof -
  have k: "''Spend Data'' \<in> fst ` set data_type_map"
    by (simp add: data_type_map_def)
  have x: "\<not> endswith (name pdf_file) ''.csv'' \<and> \<not> endswith (name pdf_file) ''.xlsx''"
    by (simp add: endswith_def pdf_file_def)
  have c: "endswith (name csv_file) ''.csv''"
    by (simp add: endswith_def csv_file_def)
  have p: "parsed (\<lambda>f. Inr no_amount_upload) (\<lambda>f. Inl ''unused'') csv_file no_amount_upload"
    by (rule csv_file_parsed)
  have m: "\<not> set (required_columns ''Spend Data'') \<subseteq> set (columns no_amount_upload)"
    using no_amount_upload_missing by (simp add: missing_columns_empty[symmetric])
  note t1 = failed_validation_keeps_store[of "''Spend Data''" "\<lambda>f. Inr spend_upload"
      "\<lambda>f. Inl ''unused''" session0 "Some pdf_file" pdf_file "''x''" spend_upload]
  have v1: "validate_data (\<lambda>f. Inr spend_upload) (\<lambda>f. Inl ''unused'') pdf_file ''Spend Data'' =
          (False, ''Unsupported file type. Please upload a CSV or Excel file.'', None)"
    using t1 x by blast
  have u1: "upload (\<lambda>f. Inr spend_upload) (\<lambda>f. Inl ''unused'') session0 (Some pdf_file) ''Spend Data''
       = Inr (session0,
              Some (Error ''Unsupported file type. Please upload a CSV or Excel file.''))"
    using t1 k v1 by simp
  note t2 = failed_validation_keeps_store[of "''Spend Data''" "\<lambda>f. Inl ''ParserError''"
      "\<lambda>f. Inl ''unused''" session0 "Some csv_file" csv_file "''ParserError''" spend_upload]
  have v2: "validate_data (\<lambda>f. Inl ''ParserError'') (\<lambda>f. Inl ''unused'') csv_file ''Spend Data'' =
          (False, ''Error during validation: '' @ ''ParserError'', None)"
    using t2 c by blast
  have u2: "upload (\<lambda>f. Inl ''ParserError'') (\<lambda>f. Inl ''unused'') session0 (Some csv_file) ''Spend Data''
       = Inr (session0, Some (Error ''Error during validation: ParserError''))"
    using t2 k v2 by simp
  note t3 = failed_validation_keeps_store[of "''Spend Data''" "\<lambda>f. Inr no_amount_upload"
      "\<lambda>f. Inl ''unused''" session0 "Some csv_file" csv_file "''x''" no_amount_upload]
  have v3: "\<not> fst (validate_data (\<lambda>f. Inr no_amount_upload) (\<lambda>f. Inl ''unused'') csv_file ''Spend Data'')"
    using t3 p m by blast
  have u3: "fst (the_inr (upload (\<lambda>f. Inr no_amount_upload) (\<lambda>f. Inl ''unused'') session0
                      (Some csv_file) ''Spend Data'')) = session0"
    using t3 k v3 by (simp add: the_inr_def)
  from k x u1 c u2 p m u3 show ?thesis by blast
qed

end
